theory Spec2Isabelle
  imports Main
begin

section \<open>Data model\<close>

text \<open>
  The backend is an Express application over MongoDB collections. Object ids are
  modelled by their string rendering (\<open>toString()\<close>), instants (\<open>Date\<close>) by
  their millisecond value, a nullable field by \<open>option\<close>, a collection by the
  list of its documents. Role names, classifications and message types are the
  strings the source compares.
\<close>

text \<open>\<open>backend/models/User.js\<close>: a document of the users collection.\<close>

record user =
  user_id :: string
  username :: string
  email :: string
  password :: string
  role :: string
  fullName :: string
  isActive :: bool
  lastLogin :: "int option"
  mfaEnabled :: bool
  passwordChangedAt :: "int option"
  loginAttempts :: int
  lockUntil :: "int option"

text \<open>The request context \<open>req.user = { id, role, email }\<close> set by \<open>authenticate\<close>.\<close>

record req_user =
  req_id :: string
  req_role :: string
  req_email :: string

text \<open>\<open>backend/models/Project.js\<close>.\<close>

record project =
  project_id :: string
  name :: string
  description :: string
  status :: string
  createdBy :: string
  projectLead :: "string option"
  assignedDevelopers :: "string list"
  priority :: string
  lastModifiedBy :: "string option"

text \<open>
  The Document model: an entry of \<open>accessibleBy\<close>, an entry of \<open>accessLog\<close>, a
  document; \<open>createdAt\<close> is the time stamp the schema option \<open>timestamps\<close> writes
  when the document is first saved.
\<close>

record access_entry =
  userId :: string
  granted_role :: string

record access_log_entry =
  log_userId :: string
  accessedAt :: int
  action :: string

record document =
  document_id :: string
  fileName :: string
  originalFileName :: string
  filePath :: string
  cloudinaryPublicId :: "string option"
  cloudinaryUrl :: "string option"
  storageType :: string
  fileSize :: int
  mimeType :: string
  doc_project :: string
  uploadedBy :: string
  accessibleBy :: "access_entry list"
  classification :: string
  checksum :: string
  accessLog :: "access_log_entry list"
  createdAt :: int

text \<open>The Message model (project communication and the completion workflow).\<close>

record msg =
  message_id :: string
  msg_project :: string
  sender :: string
  content :: string
  msg_type :: string
  reviewedBy :: "string option"
  reviewedAt :: "int option"
  reviewResponse :: "string option"
  isRead :: bool

section \<open>Project access decisions (\<open>backend/controllers/projectController.js\<close>)\<close>

text \<open>
  \<open>getId\<close> turns a reference field (a raw id or a populated document) into its id
  string and a missing field into \<open>null\<close>; with ids as strings only the null
  case is left to decide.
\<close>

definition getId :: "string option \<Rightarrow> string option" where
  "getId field = (case field of None \<Rightarrow> None | Some v \<Rightarrow> Some v)"

definition hasProjectAccess :: "req_user \<Rightarrow> project \<Rightarrow> bool" where
  "hasProjectAccess u p =
     (if req_role u = ''admin'' then True
      else if req_role u = ''project-lead'' \<and>
              (getId (projectLead p) = Some (req_id u) \<or> getId (Some (createdBy p)) = Some (req_id u))
      then True
      else if req_role u = ''developer'' \<and>
              Some (req_id u) \<in> set (map (\<lambda>dev. getId (Some dev)) (assignedDevelopers p))
      then True
      else False)"

definition canModifyProject :: "req_user \<Rightarrow> project \<Rightarrow> bool" where
  "canModifyProject u p =
     (if req_role u = ''admin'' then True
      else if req_role u = ''project-lead'' \<and>
              (getId (projectLead p) = Some (req_id u) \<or> getId (Some (createdBy p)) = Some (req_id u))
      then True
      else False)"

text \<open>
  \<open>listProjects\<close> builds a MongoDB filter from the role and returns the matching
  projects. The three filters the source can build are the constructors; \<open>matches\<close>
  is the query semantics (\<open>{}\<close> matches everything, a scalar condition on an array
  field matches when the array contains it).
\<close>

datatype project_filter =
    Filter_empty
  | Filter_assignedDevelopers string
  | Filter_or_projectLead_createdBy string

definition listProjects_filter :: "req_user \<Rightarrow> project_filter" where
  "listProjects_filter u =
     (if req_role u = ''developer'' then Filter_assignedDevelopers (req_id u)
      else if req_role u = ''project-lead'' then Filter_or_projectLead_createdBy (req_id u)
      else Filter_empty)"

fun matches :: "project_filter \<Rightarrow> project \<Rightarrow> bool" where
  "matches Filter_empty p = True"
| "matches (Filter_assignedDevelopers i) p = (i \<in> set (assignedDevelopers p))"
| "matches (Filter_or_projectLead_createdBy i) p = (projectLead p = Some i \<or> createdBy p = i)"

definition listProjects :: "req_user \<Rightarrow> project list \<Rightarrow> nat \<times> project list" where
  "listProjects u projects = (200, filter (matches (listProjects_filter u)) projects)"

section \<open>Document access decision (document controller)\<close>

definition canAccessDocument :: "req_user \<Rightarrow> document \<Rightarrow> bool" where
  "canAccessDocument u d =
     (if req_role u = ''admin'' then True
      else list_ex (\<lambda>access. userId access = req_id u) (accessibleBy d))"

section \<open>Collections, responses and strings\<close>

text \<open>
  A collection is the list of its documents; \<open>key\<close> reads the \<open>_id\<close>.
  \<open>find_by\<close> is \<open>findById\<close>, \<open>update_by\<close> is an update of the one document
  with that id (\<open>findByIdAndUpdate\<close>, \<open>doc.updateOne\<close>, \<open>doc.save\<close>),
  \<open>delete_by\<close> is \<open>findByIdAndDelete\<close>. Ids are taken to be well-formed
  object ids (a malformed id makes the driver throw, which the handlers answer with 500)
  in the rendering of \<open>toString()\<close>, which is what the collections and the tokens
  hold. Two handlers compare a path parameter as a text before the driver casts it,
  \<open>deleteUser\<close> and \<open>deactivateUser\<close>; there the cast is modelled (\<open>castObjectId\<close>).
\<close>

definition find_by :: "('a \<Rightarrow> string) \<Rightarrow> string \<Rightarrow> 'a list \<Rightarrow> 'a option" where
  "find_by key i xs = find (\<lambda>x. key x = i) xs"

fun update_by :: "('a \<Rightarrow> string) \<Rightarrow> string \<Rightarrow> ('a \<Rightarrow> 'a) \<Rightarrow> 'a list \<Rightarrow> 'a list" where
  "update_by key i f [] = []"
| "update_by key i f (x # xs) = (if key x = i then f x # xs else x # update_by key i f xs)"

fun delete_by :: "('a \<Rightarrow> string) \<Rightarrow> string \<Rightarrow> 'a list \<Rightarrow> 'a list" where
  "delete_by key i [] = []"
| "delete_by key i (x # xs) = (if key x = i then xs else x # delete_by key i xs)"

text \<open>What a handler sends: \<open>res.status(s).json({ success, message, data })\<close>.\<close>

record 'd response =
  http_status :: nat
  success :: bool
  message :: string
  data :: "'d option"

definition json :: "nat \<Rightarrow> bool \<Rightarrow> string \<Rightarrow> 'd response" where
  "json st ok msg = \<lparr>http_status = st, success = ok, message = msg, data = None\<rparr>"

definition json_data :: "nat \<Rightarrow> bool \<Rightarrow> string \<Rightarrow> 'd \<Rightarrow> 'd response" where
  "json_data st ok msg d = \<lparr>http_status = st, success = ok, message = msg, data = Some d\<rparr>"

text \<open>
  A string is the list of its characters, a character standing for a code point below
  256 (one UTF-16 code unit), so \<open>length\<close> is the JavaScript \<open>length\<close>. \<open>truthy\<close>
  is JavaScript truthiness of an optional string (\<open>undefined\<close>, \<open>null\<close> and the empty
  string are falsy). \<open>isWhitespace\<close> holds of the white space and line terminators
  that \<open>String.prototype.trim\<close> strips and the pattern class \<open>\s\<close> matches: in this range tab, line
  feed, vertical tab, form feed, carriage return, space and the no-break space U+00A0.
  \<open>toLowerCase\<close> maps A to Z and the capital letters U+00C0 to U+00DE (the
  multiplication sign U+00D7 apart) to their small letters, 32 code points up.
\<close>

definition truthy :: "string option \<Rightarrow> bool" where
  "truthy v = (case v of None \<Rightarrow> False | Some s \<Rightarrow> s \<noteq> [])"

definition isWhitespace :: "char \<Rightarrow> bool" where
  "isWhitespace c = (of_char c \<in> {9, 10, 11, 12, 13, 32, 160 :: nat})"

definition trim :: "string \<Rightarrow> string" where
  "trim s = rev (dropWhile isWhitespace (rev (dropWhile isWhitespace s)))"

definition toLowerCase :: "string \<Rightarrow> string" where
  "toLowerCase s =
     map (\<lambda>c. if (65 \<le> (of_char c :: nat) \<and> (of_char c :: nat) \<le> 90)
                 \<or> (192 \<le> (of_char c :: nat) \<and> (of_char c :: nat) \<le> 222
                     \<and> (of_char c :: nat) \<noteq> 215)
              then char_of ((of_char c :: nat) + 32) else c) s"

section \<open>Configuration (\<open>backend/config/config.js\<close>)\<close>

text \<open>
  The values read from the environment. The two token lifetimes are kept in seconds
  (the source gives them as \<open>'15m'\<close> and \<open>'7d'\<close>).
\<close>

record config =
  jwt_secret :: string
  jwt_refreshSecret :: string
  jwt_expiration :: int
  jwt_refreshExpiration :: int
  maxFileSize :: int
  allowedFileTypes :: "string list"

section \<open>Tokens (the JWT utilities)\<close>

text \<open>
  A signed token is modelled by its claims together with the secret it was signed
  with; the HS256 signature verifies exactly when that secret is the verifier's.
  \<open>iat\<close> and \<open>expiry\<close> are in seconds, as the library writes them
  (\<open>iat = floor(now / 1000)\<close>, \<open>exp = iat + lifetime\<close>). A token is expired
  once \<open>floor(now / 1000) \<ge> exp\<close>.
\<close>

record access_claims =
  sub :: string
  token_role :: string
  token_type :: string
  iat :: int
  expiry :: int
  iss :: string
  aud :: string
  signed_with :: string

record refresh_claims =
  rsub :: string
  rtoken_type :: string
  riat :: int
  rexpiry :: int
  riss :: string
  rsigned_with :: string

datatype token = Malformed string | Access_token access_claims | Refresh_token refresh_claims

definition generateAccessToken :: "config \<Rightarrow> int \<Rightarrow> string \<Rightarrow> string \<Rightarrow> token" where
  "generateAccessToken cfg now uid r =
     Access_token \<lparr>sub = uid, token_role = r, token_type = ''access'',
       iat = now div 1000, expiry = now div 1000 + jwt_expiration cfg,
       iss = ''pixelforge-nexus'', aud = ''pixelforge-nexus-client'',
       signed_with = jwt_secret cfg\<rparr>"

definition generateRefreshToken :: "config \<Rightarrow> int \<Rightarrow> string \<Rightarrow> token" where
  "generateRefreshToken cfg now uid =
     Refresh_token \<lparr>rsub = uid, rtoken_type = ''refresh'',
       riat = now div 1000, rexpiry = now div 1000 + jwt_refreshExpiration cfg,
       riss = ''pixelforge-nexus'', rsigned_with = jwt_refreshSecret cfg\<rparr>"

text \<open>
  \<open>verifyAccessToken\<close>: signature, then expiry, then audience and issuer. A refresh
  token carries no audience, so it never verifies as an access token.
\<close>

fun verifyAccessToken :: "config \<Rightarrow> int \<Rightarrow> token \<Rightarrow> string + access_claims" where
  "verifyAccessToken cfg now (Malformed s) = Inl ''Invalid access token''"
| "verifyAccessToken cfg now (Access_token c) =
     (if signed_with c \<noteq> jwt_secret cfg then Inl ''Invalid access token''
      else if now div 1000 \<ge> expiry c then Inl ''Access token has expired''
      else if aud c \<noteq> ''pixelforge-nexus-client'' then Inl ''Invalid access token''
      else if iss c \<noteq> ''pixelforge-nexus'' then Inl ''Invalid access token''
      else Inr c)"
| "verifyAccessToken cfg now (Refresh_token c) =
     (if rsigned_with c \<noteq> jwt_secret cfg then Inl ''Invalid access token''
      else if now div 1000 \<ge> rexpiry c then Inl ''Access token has expired''
      else Inl ''Invalid access token'')"

text \<open>
  \<open>verifyRefreshToken\<close>: signature with the refresh secret, expiry, issuer; no
  audience is asked for and the \<open>type\<close> claim is not read. The handler uses only
  \<open>payload.sub\<close> and that is what is returned.
\<close>

fun verifyRefreshToken :: "config \<Rightarrow> int \<Rightarrow> token \<Rightarrow> string + string" where
  "verifyRefreshToken cfg now (Malformed s) = Inl ''Invalid refresh token''"
| "verifyRefreshToken cfg now (Refresh_token c) =
     (if rsigned_with c \<noteq> jwt_refreshSecret cfg then Inl ''Invalid refresh token''
      else if now div 1000 \<ge> rexpiry c then Inl ''Refresh token has expired''
      else if riss c \<noteq> ''pixelforge-nexus'' then Inl ''Invalid refresh token''
      else Inr (rsub c))"
| "verifyRefreshToken cfg now (Access_token c) =
     (if signed_with c \<noteq> jwt_refreshSecret cfg then Inl ''Invalid refresh token''
      else if now div 1000 \<ge> expiry c then Inl ''Refresh token has expired''
      else if iss c \<noteq> ''pixelforge-nexus'' then Inl ''Invalid refresh token''
      else Inr (sub c))"

section \<open>User model methods (\<open>backend/models/User.js\<close>)\<close>

text \<open>
  bcrypt is modelled by its contract: the digest of a secret is a tagged copy of it
  and \<open>compare\<close> accepts a candidate exactly when the digest is the candidate's.
\<close>

definition bcrypt_hash :: "string \<Rightarrow> string" where
  "bcrypt_hash secret = ''$2a$'' @ secret"

definition verifyPassword :: "user \<Rightarrow> string \<Rightarrow> bool" where
  "verifyPassword this candidatePassword = (password this = bcrypt_hash candidatePassword)"

definition passwordChangedAfter :: "user \<Rightarrow> int \<Rightarrow> bool" where
  "passwordChangedAfter this jwtTimestamp =
     (case passwordChangedAt this of
        Some changed \<Rightarrow> jwtTimestamp < changed div 1000
      | None \<Rightarrow> False)"

definition isLocked :: "int \<Rightarrow> user \<Rightarrow> bool" where
  "isLocked now this = (case lockUntil this of None \<Rightarrow> False | Some l \<Rightarrow> l > now)"

text \<open>
  \<open>incLoginAttempts\<close> decides on the document in memory (\<open>this\<close>) and sends one
  update for the stored document with that id; \<open>$unset\<close> leaves the field null.
\<close>

definition incLoginAttempts :: "int \<Rightarrow> user \<Rightarrow> user list \<Rightarrow> user list" where
  "incLoginAttempts now this users =
     (if (case lockUntil this of None \<Rightarrow> False | Some l \<Rightarrow> l < now)
      then update_by user_id (user_id this)
             (\<lambda>d. d\<lparr>loginAttempts := 1, lockUntil := None\<rparr>) users
      else if loginAttempts this + 1 \<ge> 5
      then update_by user_id (user_id this)
             (\<lambda>d. d\<lparr>loginAttempts := loginAttempts d + 1,
                    lockUntil := Some (now + 2 * 60 * 60 * 1000)\<rparr>) users
      else update_by user_id (user_id this)
             (\<lambda>d. d\<lparr>loginAttempts := loginAttempts d + 1\<rparr>) users)"

definition resetLoginAttempts :: "int \<Rightarrow> user \<Rightarrow> user list \<Rightarrow> user list" where
  "resetLoginAttempts now this users =
     update_by user_id (user_id this)
       (\<lambda>d. d\<lparr>loginAttempts := 0, lastLogin := Some now, lockUntil := None\<rparr>) users"

text \<open>
  Saving a user whose \<open>password\<close> was assigned: the schema validators run on the
  assigned value (at least 8 characters), then the pre-save hook replaces it by its
  digest and stamps \<open>passwordChangedAt\<close>. Assigning the value already stored leaves
  the path unmodified and the hook does nothing. \<open>None\<close> is the validation error.
\<close>

definition save_password :: "int \<Rightarrow> user \<Rightarrow> string \<Rightarrow> user option" where
  "save_password now this newPassword =
     (if newPassword = password this then Some this
      else if length newPassword < 8 then None
      else Some (this\<lparr>password := bcrypt_hash newPassword, passwordChangedAt := Some now\<rparr>))"

section \<open>Authentication middleware\<close>

text \<open>The \<open>Authorization\<close> header: a bearer token, or some other text.\<close>

datatype authorization = Bearer token | NotBearer string

definition authenticate ::
  "config \<Rightarrow> int \<Rightarrow> user list \<Rightarrow> authorization option \<Rightarrow> unit response + req_user" where
  "authenticate cfg now users authHeader =
     (case authHeader of
        None \<Rightarrow> Inl (json 401 False ''No authentication token provided'')
      | Some (NotBearer s) \<Rightarrow> Inl (json 401 False ''No authentication token provided'')
      | Some (Bearer t) \<Rightarrow>
          (case verifyAccessToken cfg now t of
             Inl msg \<Rightarrow> Inl (json 401 False msg)
           | Inr payload \<Rightarrow>
               (case find_by user_id (sub payload) users of
                  None \<Rightarrow> Inl (json 401 False ''User not found or account is inactive'')
                | Some u \<Rightarrow>
                    if \<not> isActive u
                    then Inl (json 401 False ''User not found or account is inactive'')
                    else if passwordChangedAfter u (iat payload)
                    then Inl (json 401 False ''Password recently changed. Please login again.'')
                    else Inr \<lparr>req_id = sub payload, req_role = token_role payload,
                              req_email = email u\<rparr>)))"

text \<open>\<open>authorize(...allowedRoles)\<close>: \<open>None\<close> is \<open>next()\<close>.\<close>

fun join_comma :: "string list \<Rightarrow> string" where
  "join_comma [] = []"
| "join_comma [x] = x"
| "join_comma (x # y # ys) = x @ '', '' @ join_comma (y # ys)"

definition authorize :: "string list \<Rightarrow> req_user option \<Rightarrow> unit response option" where
  "authorize allowedRoles requser =
     (case requser of
        None \<Rightarrow> Some (json 401 False ''Authentication required'')
      | Some u \<Rightarrow>
          if req_role u \<notin> set allowedRoles
          then Some (json 403 False (''Access denied. Required roles: '' @ join_comma allowedRoles))
          else None)"

section \<open>Authentication controller (\<open>backend/controllers/authController.js\<close>)\<close>

record login_body =
  body_username :: string
  body_password :: string

text \<open>
  The login handler. The route runs a rate limiter (5 requests in 15 minutes for one
  address and user name) and the input validation before it; they are not part of the
  handler. One request reads the clock once. The answer carries the tokens; the
  serialised user is left out.

  The filter \<open>{ $or: [{ username }, { email: username }] }\<close> is cast by the schema
  before it is sent: both paths are declared \<open>lowercase\<close> and \<open>trim\<close>, so the name
  is compared in lower case and without surrounding white space (\<open>login_query\<close>).

  The handler reads the account once (\<open>findOne\<close>) and decides on that copy;
  \<open>incLoginAttempts\<close> and \<open>resetLoginAttempts\<close> then send their update to the
  store as it is by then. \<open>login_at\<close> keeps the two apart: \<open>seen\<close> is the
  collection when the account was read, \<open>users\<close> the collection the update reaches.
  \<open>login\<close> is a request that no other request overlaps.
\<close>

datatype login_data = Mfa_required token | Tokens token token

definition login_query :: "string \<Rightarrow> user \<Rightarrow> bool" where
  "login_query n u = (username u = trim (toLowerCase n) \<or> email u = trim (toLowerCase n))"

definition login_at ::
  "config \<Rightarrow> int \<Rightarrow> login_body \<Rightarrow> user list \<Rightarrow> user list \<Rightarrow>
   login_data response \<times> user list" where
  "login_at cfg now body seen users =
     (case find (login_query (body_username body)) seen of
        None \<Rightarrow> (json 401 False ''Invalid username or password'', users)
      | Some u \<Rightarrow>
          if isLocked now u
          then (json 403 False
                  ''Account is locked due to too many failed login attempts. Please try again later.'',
                users)
          else if \<not> isActive u
          then (json 403 False ''Account has been deactivated'', users)
          else if \<not> verifyPassword u (body_password body)
          then (json 401 False ''Invalid username or password'', incLoginAttempts now u users)
          else if mfaEnabled u
          then (json_data 200 True ''MFA verification required''
                  (Mfa_required (generateAccessToken cfg now (user_id u) (role u))),
                users)
          else (json_data 200 True ''Login successful''
                  (Tokens (generateAccessToken cfg now (user_id u) (role u))
                          (generateRefreshToken cfg now (user_id u))),
                resetLoginAttempts now u users))"

definition login ::
  "config \<Rightarrow> int \<Rightarrow> login_body \<Rightarrow> user list \<Rightarrow> login_data response \<times> user list" where
  "login cfg now body users = login_at cfg now body users users"

text \<open>A client sending login requests one after the other; the store is threaded through.\<close>

fun login_run :: "config \<Rightarrow> (int \<times> login_body) list \<Rightarrow> user list \<Rightarrow> user list" where
  "login_run cfg [] users = users"
| "login_run cfg ((now, body) # rest) users = login_run cfg rest (snd (login cfg now body users))"

text \<open>
  Login requests that overlap: each of them has read the accounts (\<open>seen\<close>) before
  any of them writes; the updates then reach the store one after the other.
\<close>

fun login_overlapping ::
  "config \<Rightarrow> (int \<times> login_body) list \<Rightarrow> user list \<Rightarrow> user list \<Rightarrow> user list" where
  "login_overlapping cfg [] seen users = users"
| "login_overlapping cfg ((now, body) # rest) seen users =
     login_overlapping cfg rest seen (snd (login_at cfg now body seen users))"

definition refreshToken ::
  "config \<Rightarrow> int \<Rightarrow> token option \<Rightarrow> user list \<Rightarrow> token response" where
  "refreshToken cfg now body_refreshToken users =
     (case body_refreshToken of
        None \<Rightarrow> json 400 False ''Refresh token is required''
      | Some t \<Rightarrow>
          if t = Malformed []
          then json 400 False ''Refresh token is required''
          else
          (case verifyRefreshToken cfg now t of
             Inl msg \<Rightarrow> json 401 False msg
           | Inr payload_sub \<Rightarrow>
               (case find_by user_id payload_sub users of
                  None \<Rightarrow> json 401 False ''User not found or account is inactive''
                | Some u \<Rightarrow>
                    if \<not> isActive u
                    then json 401 False ''User not found or account is inactive''
                    else json_data 200 True ''Token refreshed successfully''
                           (generateAccessToken cfg now (user_id u) (role u)))))"

record change_password_body =
  oldPassword :: string
  newPassword :: string
  confirmPassword :: string

definition changePassword ::
  "int \<Rightarrow> req_user \<Rightarrow> change_password_body \<Rightarrow> user list \<Rightarrow> unit response \<times> user list" where
  "changePassword now requser body users =
     (if newPassword body \<noteq> confirmPassword body
      then (json 400 False ''Passwords do not match'', users)
      else case find_by user_id (req_id requser) users of
        None \<Rightarrow> (json 404 False ''User not found'', users)
      | Some u \<Rightarrow>
          if \<not> verifyPassword u (oldPassword body)
          then (json 401 False ''Old password is incorrect'', users)
          else (case save_password now u (newPassword body) of
                  None \<Rightarrow> (json 500 False ''Internal server error'', users)
                | Some u' \<Rightarrow>
                    (json 200 True ''Password changed successfully'',
                     update_by user_id (user_id u) (\<lambda>d. u') users)))"

section \<open>User management controller (\<open>backend/controllers/userController.js\<close>)\<close>

text \<open>The body of \<open>PUT /users/:id\<close>; an absent field is \<open>None\<close>.\<close>

record update_user_body =
  upd_fullName :: "string option"
  upd_email :: "string option"
  upd_role :: "string option"
  upd_isActive :: "bool option"
  upd_password :: "string option"

text \<open>The update object \<open>updateData\<close> the handler builds from the body.\<close>

record update_data =
  set_fullName :: "string option"
  set_email :: "string option"
  set_role :: "string option"
  set_isActive :: "bool option"

definition build_updateData :: "update_user_body \<Rightarrow> update_data" where
  "build_updateData body =
     \<lparr>set_fullName = (if truthy (upd_fullName body) then upd_fullName body else None),
      set_email = (if truthy (upd_email body) then upd_email body else None),
      set_role = (case upd_role body of
                    None \<Rightarrow> None
                  | Some r \<Rightarrow>
                      if r \<noteq> [] \<and> r \<in> set [''admin'', ''project-lead'', ''developer'']
                      then Some r else None),
      set_isActive = upd_isActive body\<rparr>"

text \<open>
  The schema of the users collection as \<open>runValidators\<close> applies it to an update:
  the setters (\<open>trim\<close>, \<open>lowercase\<close>), then the validators of the paths that are
  set. The e-mail pattern is \<open>/^[^\s@]+@[^\s@]+\.[^\s@]+$/\<close>.
\<close>

definition email_format_ok :: "string \<Rightarrow> bool" where
  "email_format_ok v =
     (case dropWhile (\<lambda>c. c \<noteq> CHR ''@'') v of
        [] \<Rightarrow> False
      | at # host \<Rightarrow>
          takeWhile (\<lambda>c. c \<noteq> CHR ''@'') v \<noteq> []
          \<and> CHR ''@'' \<notin> set host
          \<and> \<not> list_ex isWhitespace v
          \<and> CHR ''.'' \<in> set (butlast (tl host)))"

definition cast_update :: "update_data \<Rightarrow> update_data" where
  "cast_update ud =
     ud\<lparr>set_fullName := map_option trim (set_fullName ud),
        set_email := map_option (\<lambda>e. trim (toLowerCase e)) (set_email ud)\<rparr>"

definition update_valid :: "update_data \<Rightarrow> bool" where
  "update_valid ud =
     ((case set_fullName ud of None \<Rightarrow> True | Some n \<Rightarrow> n \<noteq> [] \<and> length n \<le> 100)
      \<and> (case set_email ud of None \<Rightarrow> True | Some e \<Rightarrow> e \<noteq> [] \<and> email_format_ok e)
      \<and> (case set_role ud of None \<Rightarrow> True
          | Some r \<Rightarrow> r \<in> set [''admin'', ''project-lead'', ''developer'']))"

definition apply_update :: "update_data \<Rightarrow> user \<Rightarrow> user" where
  "apply_update ud d =
     d\<lparr>fullName := (case set_fullName ud of None \<Rightarrow> fullName d | Some n \<Rightarrow> n),
       email := (case set_email ud of None \<Rightarrow> email d | Some e \<Rightarrow> e),
       role := (case set_role ud of None \<Rightarrow> role d | Some r \<Rightarrow> r),
       isActive := (case set_isActive ud of None \<Rightarrow> isActive d | Some b \<Rightarrow> b)\<rparr>"

text \<open>The unique index on \<open>email\<close>: another document already holds the new value.\<close>

definition email_taken :: "string \<Rightarrow> update_data \<Rightarrow> user list \<Rightarrow> bool" where
  "email_taken i ud users =
     (case set_email ud of
        None \<Rightarrow> False
      | Some e \<Rightarrow> list_ex (\<lambda>u. user_id u \<noteq> i \<and> email u = e) users)"

definition updateUser ::
  "req_user \<Rightarrow> string \<Rightarrow> update_user_body \<Rightarrow> user list \<Rightarrow> unit response \<times> user list" where
  "updateUser requser i body users =
     (if truthy (upd_password body)
      then (json 400 False
              ''Cannot update password through this endpoint. Use /change-password'', users)
      else let updateData = cast_update (build_updateData body) in
        if \<not> update_valid updateData
        then (json 400 False ''Validation error'', users)
        else case find_by user_id i users of
          None \<Rightarrow> (json 404 False ''User not found'', users)
        | Some u \<Rightarrow>
            if email_taken i updateData users
            then (json 500 False ''Internal server error'', users)
            else (json 200 True ''User updated successfully'',
                  update_by user_id i (apply_update updateData) users))"

text \<open>
  \<open>deleteUser\<close> and \<open>deactivateUser\<close> compare the path parameter with the caller's id
  as two strings (\<open>req.user.id === id\<close>) and then hand it to \<open>findByIdAndDelete\<close>
  resp. \<open>findByIdAndUpdate\<close>, which cast it to an object id. \<open>castObjectId\<close> is that
  cast: 24 hexadecimal digits in either letter case denote the id that renders as the
  same digits in lower case; any other text is a cast error, which the handler's
  \<open>catch\<close> answers with 500. (Driver releases that also read a text of 12 characters
  as an id are not covered.)
\<close>

definition isHexDigit :: "char \<Rightarrow> bool" where
  "isHexDigit c =
     ((48 \<le> (of_char c :: nat) \<and> (of_char c :: nat) \<le> 57)
      \<or> (65 \<le> (of_char c :: nat) \<and> (of_char c :: nat) \<le> 70)
      \<or> (97 \<le> (of_char c :: nat) \<and> (of_char c :: nat) \<le> 102))"

definition castObjectId :: "string \<Rightarrow> string option" where
  "castObjectId i =
     (if length i = 24 \<and> list_all isHexDigit i then Some (toLowerCase i) else None)"

definition deleteUser ::
  "req_user \<Rightarrow> string \<Rightarrow> user list \<Rightarrow> unit response \<times> user list" where
  "deleteUser requser i users =
     (if req_id requser = i
      then (json 400 False ''Cannot delete your own account'', users)
      else case castObjectId i of
        None \<Rightarrow> (json 500 False ''Internal server error'', users)
      | Some oid \<Rightarrow>
          (case find_by user_id oid users of
             None \<Rightarrow> (json 404 False ''User not found'', users)
           | Some u \<Rightarrow>
               (json 200 True ''User deleted successfully'', delete_by user_id oid users)))"

definition deactivateUser ::
  "req_user \<Rightarrow> string \<Rightarrow> user list \<Rightarrow> unit response \<times> user list" where
  "deactivateUser requser i users =
     (if req_id requser = i
      then (json 400 False ''Cannot deactivate your own account'', users)
      else case castObjectId i of
        None \<Rightarrow> (json 500 False ''Internal server error'', users)
      | Some oid \<Rightarrow>
          (case find_by user_id oid users of
             None \<Rightarrow> (json 404 False ''User not found'', users)
           | Some u \<Rightarrow>
               (json 200 True ''User account deactivated successfully'',
                update_by user_id oid (\<lambda>d. d\<lparr>isActive := False\<rparr>) users)))"

text \<open>
  \<open>backend/routes/userRoutes.js\<close>: every user route runs \<open>authenticate\<close>, then
  \<open>authorize('admin')\<close>, then the handler.
\<close>

definition user_route ::
  "config \<Rightarrow> int \<Rightarrow> authorization option \<Rightarrow>
   (req_user \<Rightarrow> user list \<Rightarrow> unit response \<times> user list) \<Rightarrow> user list \<Rightarrow>
   unit response \<times> user list" where
  "user_route cfg now authHeader handler users =
     (case authenticate cfg now users authHeader of
        Inl r \<Rightarrow> (r, users)
      | Inr requser \<Rightarrow>
          (case authorize [''admin''] (Some requser) of
             Some r \<Rightarrow> (r, users)
           | None \<Rightarrow> handler requser users))"

section \<open>Project deletion (\<open>backend/controllers/projectController.js\<close>)\<close>

text \<open>
  \<open>deleteProject\<close> of the project controller removes the project and nothing else:
  the messages and documents of the project stay in their collections.
\<close>

definition deleteProject ::
  "req_user \<Rightarrow> string \<Rightarrow> project list \<Rightarrow> unit response \<times> project list" where
  "deleteProject requser i projects =
     (case find_by project_id i projects of
        None \<Rightarrow> (json 404 False ''Project not found'', projects)
      | Some p \<Rightarrow>
          if req_role requser \<noteq> ''admin''
          then (json 403 False ''Only admins can delete projects'', projects)
          else (json 200 True ''Project deleted successfully'',
                delete_by project_id i projects))"

section \<open>Message controller\<close>

text \<open>
  The message controller carries its own copy of \<open>hasProjectAccess\<close>, the same
  text as the one of the project controller. \<open>reviewCompletionRequest\<close> calls it
  on the result of a lookup, which is \<open>null\<close> when the project is gone: the admin
  branch returns before the project is read, the two other role branches dereference
  it and throw (\<open>None\<close> here), any other role falls through to \<open>false\<close>.
\<close>

definition hasProjectAccess_nullable :: "req_user \<Rightarrow> project option \<Rightarrow> bool option" where
  "hasProjectAccess_nullable u po =
     (case po of
        Some p \<Rightarrow> Some (hasProjectAccess u p)
      | None \<Rightarrow>
          if req_role u = ''admin'' then Some True
          else if req_role u = ''project-lead'' then None
          else if req_role u = ''developer'' then None
          else Some False)"

record send_message_body =
  body_content :: "string option"
  body_type :: "string option"

text \<open>The validators of the Message schema, run by \<open>save\<close>.\<close>

definition message_valid :: "msg \<Rightarrow> bool" where
  "message_valid m =
     (1 \<le> length (content m) \<and> length (content m) \<le> 2000
      \<and> msg_type m \<in> set [''message'', ''completion-request'', ''completion-approved'',
                            ''completion-rejected'']
      \<and> (case reviewResponse m of None \<Rightarrow> True | Some r \<Rightarrow> length r \<le> 1000))"

definition pendingRequest :: "string \<Rightarrow> msg list \<Rightarrow> msg option" where
  "pendingRequest projectId messages =
     find (\<lambda>m. msg_project m = projectId \<and> msg_type m = ''completion-request''
               \<and> reviewedBy m = None) messages"

text \<open>
  \<open>new_id\<close> is the \<open>_id\<close> the driver gives the new message. The look-up of a pending
  request (\<open>Message.findOne\<close>) and the insertion (\<open>message.save()\<close>) are two awaited
  calls, and the collection has no unique index that would refuse a second pending
  request: \<open>sendMessage_at\<close> looks for the pending request in \<open>seen\<close>, the
  collection as it was at the look-up, and inserts into \<open>messages\<close>, the collection
  as it is at the save. \<open>sendMessage\<close> is a request that no other request overlaps.
\<close>

definition sendMessage_at ::
  "req_user \<Rightarrow> string \<Rightarrow> send_message_body \<Rightarrow> string \<Rightarrow> project list \<Rightarrow> msg list \<Rightarrow>
   msg list \<Rightarrow> msg response \<times> msg list" where
  "sendMessage_at requser projectId body new_id projects seen messages =
     (let ty = (case body_type body of None \<Rightarrow> ''message'' | Some t \<Rightarrow> t) in
      case body_content body of
        None \<Rightarrow> (json 400 False ''Message content is required'', messages)
      | Some c \<Rightarrow>
          if c = [] \<or> length (trim c) = 0
          then (json 400 False ''Message content is required'', messages)
          else (case find_by project_id projectId projects of
            None \<Rightarrow> (json 404 False ''Project not found'', messages)
          | Some p \<Rightarrow>
              if \<not> hasProjectAccess requser p
              then (json 403 False ''You do not have access to this project'', messages)
              else if ty = ''completion-request'' \<and> req_role requser \<noteq> ''developer''
              then (json 403 False ''Only developers can request project completion'', messages)
              else if ty = ''completion-request'' \<and> pendingRequest projectId seen \<noteq> None
              then (json 400 False
                      ''There is already a pending completion request for this project'',
                    messages)
              else let m = \<lparr>message_id = new_id, msg_project = projectId,
                               sender = req_id requser, content = trim c, msg_type = ty,
                               reviewedBy = None, reviewedAt = None, reviewResponse = None,
                               isRead = False\<rparr> in
                if \<not> message_valid m
                then (json 500 False ''Internal server error'', messages)
                else (json_data 201 True ''Message sent successfully'' m, messages @ [m])))"

definition sendMessage ::
  "req_user \<Rightarrow> string \<Rightarrow> send_message_body \<Rightarrow> string \<Rightarrow> project list \<Rightarrow> msg list \<Rightarrow>
   msg response \<times> msg list" where
  "sendMessage requser projectId body new_id projects messages =
     sendMessage_at requser projectId body new_id projects messages messages"

record review_body =
  approved :: bool
  review_response :: "string option"

text \<open>
  The review handler loads the message (\<open>findById\<close>), tests the copy it has loaded,
  assigns the four review fields to that copy and saves it. \<open>save\<close> validates the
  copy and sends the assigned fields to the stored document with that id, without a
  condition on what is stored by then; it fails when no such document is stored any
  more (no handler deletes a message, so the application's own requests do not lead
  there). \<open>reviewCompletionRequest_at\<close> reads the message in \<open>seen\<close> and writes to
  \<open>messages\<close>; \<open>reviewCompletionRequest\<close> is a request that no other request
  overlaps.
\<close>

definition reviewCompletionRequest_at ::
  "int \<Rightarrow> req_user \<Rightarrow> string \<Rightarrow> review_body \<Rightarrow> project list \<Rightarrow> msg list \<Rightarrow> msg list \<Rightarrow>
   msg response \<times> msg list \<times> project list" where
  "reviewCompletionRequest_at now requser messageId body projects seen messages =
     (if req_role requser \<notin> set [''admin'', ''project-lead'']
      then (json 403 False ''Only admins and project leads can review completion requests'',
            messages, projects)
      else (case find_by message_id messageId seen of
        None \<Rightarrow> (json 404 False ''Message not found'', messages, projects)
      | Some m \<Rightarrow>
          if msg_type m \<noteq> ''completion-request''
          then (json 400 False ''This message is not a completion request'', messages, projects)
          else if reviewedBy m \<noteq> None
          then (json 400 False ''This completion request has already been reviewed'',
                messages, projects)
          else (case hasProjectAccess_nullable requser
                      (find_by project_id (msg_project m) projects) of
            None \<Rightarrow> (json 500 False ''Internal server error'', messages, projects)
          | Some False \<Rightarrow>
              (json 403 False ''You do not have access to this project'', messages, projects)
          | Some True \<Rightarrow>
              let review = (\<lambda>d. d\<lparr>reviewedBy := Some (req_id requser),
                                     reviewedAt := Some now,
                                     reviewResponse :=
                                       Some (if truthy (review_response body)
                                             then (case review_response body of
                                                     Some r \<Rightarrow> r | None \<Rightarrow> [])
                                             else []),
                                     msg_type := (if approved body then ''completion-approved''
                                                  else ''completion-rejected'')\<rparr>) in
              if \<not> message_valid (review m)
              then (json 500 False ''Internal server error'', messages, projects)
              else if find_by message_id messageId messages = None
              then (json 500 False ''Internal server error'', messages, projects)
              else (json_data 200 True
                      (if approved body then ''Project marked as completed''
                       else ''Completion request rejected'') (review m),
                    update_by message_id messageId review messages,
                    if approved body
                    then update_by project_id (msg_project m)
                           (\<lambda>p. p\<lparr>status := ''completed'',
                                  lastModifiedBy := Some (req_id requser)\<rparr>) projects
                    else projects))))"

definition reviewCompletionRequest ::
  "int \<Rightarrow> req_user \<Rightarrow> string \<Rightarrow> review_body \<Rightarrow> project list \<Rightarrow> msg list \<Rightarrow>
   msg response \<times> msg list \<times> project list" where
  "reviewCompletionRequest now requser messageId body projects messages =
     reviewCompletionRequest_at now requser messageId body projects messages messages"

section \<open>Document controller\<close>

definition canAccessProject :: "req_user \<Rightarrow> project \<Rightarrow> bool" where
  "canAccessProject u p =
     (if req_role u = ''admin'' then True
      else if req_role u = ''project-lead'' \<and>
              (getId (projectLead p) = Some (req_id u) \<or> getId (Some (createdBy p)) = Some (req_id u))
      then True
      else if req_role u = ''developer'' \<and>
              list_ex (\<lambda>dev. getId (Some dev) = Some (req_id u)) (assignedDevelopers p)
      then True
      else False)"

definition canUploadToProject :: "req_user \<Rightarrow> project \<Rightarrow> bool" where
  "canUploadToProject u p =
     (if req_role u = ''admin'' then True
      else if req_role u = ''project-lead'' \<and>
              (getId (projectLead p) = Some (req_id u) \<or> getId (Some (createdBy p)) = Some (req_id u))
      then True
      else False)"

text \<open>
  \<open>.sort({ createdAt: -1 })\<close>: the newest document first. The database leaves the
  order of documents with equal time stamps open; here they keep their store order.
\<close>

definition sort_createdAt_desc :: "document list \<Rightarrow> document list" where
  "sort_createdAt_desc ds = sort_key (\<lambda>d. - createdAt d) ds"

definition listProjectDocuments ::
  "req_user \<Rightarrow> string \<Rightarrow> project list \<Rightarrow> document list \<Rightarrow> document list response" where
  "listProjectDocuments requser projectId projects documents =
     (case find_by project_id projectId projects of
        None \<Rightarrow> json 404 False ''Project not found''
      | Some p \<Rightarrow>
          if \<not> canAccessProject requser p
          then json 403 False ''You do not have access to this project''
          else if req_role requser = ''admin'' \<or>
                  (req_role requser = ''project-lead'' \<and>
                   (getId (projectLead p) = Some (req_id requser) \<or>
                    getId (Some (createdBy p)) = Some (req_id requser)))
          then json_data 200 True []
                 (sort_createdAt_desc (filter (\<lambda>d. doc_project d = projectId) documents))
          else json_data 200 True []
                 (sort_createdAt_desc
                    (filter (\<lambda>d. doc_project d = projectId \<and>
                                 list_ex (\<lambda>a. userId a = req_id requser) (accessibleBy d))
                       documents)))"

text \<open>
  The uploaded file as multer hands it over, and the results of the library calls the
  upload handler makes: the lower-cased extension \<open>path.extname\<close> finds in the
  original name, the stored name \<open>sanitizeFileName\<close> returns (it embeds the clock
  and random bytes), the SHA-256 digest, the answer of the cloud storage
  (\<open>secure_url\<close> and \<open>public_id\<close>, or a failure), the new document's \<open>_id\<close>, and
  the clock when the document is saved.
\<close>

record upload_file =
  originalname :: string
  size :: int
  mimetype :: string

record upload_env =
  ext :: string
  sanitizedName :: string
  digest :: string
  cloudinaryResult :: "(string \<times> string) option"
  new_document_id :: string
  saved_at :: int

definition allowedMimeTypes :: "string list" where
  "allowedMimeTypes =
     [''application/pdf'',
      ''application/msword'',
      ''application/vnd.openxmlformats-officedocument.wordprocessingml.document'',
      ''text/plain'',
      ''application/vnd.ms-excel'',
      ''application/vnd.openxmlformats-officedocument.spreadsheetml.sheet'',
      ''application/vnd.ms-powerpoint'',
      ''application/vnd.openxmlformats-officedocument.presentationml.presentation'']"

text \<open>
  The decimal digits of a number, as a template literal prints an integer (of
  magnitude below \<open>10\<^sup>2\<^sup>1\<close>; from there on JavaScript prints an exponent).
\<close>

fun decimal :: "nat \<Rightarrow> string" where
  "decimal n =
     (if n < 10 then [char_of (48 + n)]
      else decimal (n div 10) @ [char_of (48 + n mod 10)])"

declare decimal.simps [simp del]

definition numberToString :: "int \<Rightarrow> string" where
  "numberToString i = (if i < 0 then CHR ''-'' # decimal (nat (- i)) else decimal (nat i))"

text \<open>\<open>validateUploadFile\<close>: the message of the error it throws, or \<open>None\<close>.\<close>

definition validateUploadFile :: "config \<Rightarrow> upload_file \<Rightarrow> string \<Rightarrow> string option" where
  "validateUploadFile cfg file e =
     (if size file > maxFileSize cfg
      then Some (''File size exceeds maximum allowed (''
                   @ numberToString (maxFileSize cfg) @ '' bytes)'')
      else if e \<notin> set (allowedFileTypes cfg) then Some (''File type .'' @ e @ '' is not allowed'')
      else if mimetype file \<notin> set allowedMimeTypes
      then Some (''MIME type '' @ mimetype file @ '' is not allowed'')
      else None)"

text \<open>
  The validators of the Document schema, run by \<open>save\<close>; \<open>split_pop\<close> is
  \<open>v.split('.').pop()\<close>. The unique index on \<open>filePath\<close> is checked against
  the other stored documents.
\<close>

definition split_pop :: "string \<Rightarrow> string" where
  "split_pop v = rev (takeWhile (\<lambda>c. c \<noteq> CHR ''.'') (rev v))"

definition document_valid :: "document \<Rightarrow> bool" where
  "document_valid d =
     (toLowerCase (split_pop (fileName d))
        \<in> set [''pdf'', ''doc'', ''docx'', ''txt'', ''xlsx'', ''xls'', ''pptx'']
      \<and> originalFileName d \<noteq> [] \<and> filePath d \<noteq> [] \<and> checksum d \<noteq> []
      \<and> fileSize d \<le> 5242880
      \<and> mimeType d \<in> set allowedMimeTypes
      \<and> storageType d \<in> set [''local'', ''cloudinary'']
      \<and> list_all (\<lambda>a. granted_role a \<in> set [''admin'', ''project-lead'', ''developer''])
           (accessibleBy d)
      \<and> classification d \<in> set [''public'', ''internal'', ''confidential'', ''secret'']
      \<and> list_all (\<lambda>l. action l \<in> set [''viewed'', ''downloaded'']) (accessLog d))"

definition filePath_taken :: "document \<Rightarrow> document list \<Rightarrow> bool" where
  "filePath_taken d documents =
     list_ex (\<lambda>x. document_id x \<noteq> document_id d \<and> filePath x = filePath d) documents"

record upload_body =
  body_classification :: "string option"

definition build_accessibleBy :: "project \<Rightarrow> access_entry list" where
  "build_accessibleBy p =
     (case projectLead p of
        None \<Rightarrow> []
      | Some l \<Rightarrow> [\<lparr>userId = l, granted_role = ''project-lead''\<rparr>])
     @ map (\<lambda>devId. \<lparr>userId = devId, granted_role = ''developer''\<rparr>) (assignedDevelopers p)"

text \<open>The document \<open>new Document({ ... })\<close> the upload handler builds for a project.\<close>

definition new_document ::
  "upload_env \<Rightarrow> req_user \<Rightarrow> string \<Rightarrow> upload_file \<Rightarrow> upload_body \<Rightarrow> project \<Rightarrow>
   string \<Rightarrow> string \<Rightarrow> document" where
  "new_document env requser projectId file body p secure_url public_id =
     \<lparr>document_id = new_document_id env,
      fileName = sanitizedName env,
      originalFileName = originalname file,
      filePath = secure_url,
      cloudinaryPublicId = Some public_id,
      cloudinaryUrl = Some secure_url,
      storageType = ''cloudinary'',
      fileSize = size file,
      mimeType = mimetype file,
      doc_project = projectId,
      uploadedBy = req_id requser,
      accessibleBy = build_accessibleBy p,
      classification =
        (if truthy (body_classification body)
         then (case body_classification body of Some c \<Rightarrow> c | None \<Rightarrow> ''internal'')
         else ''internal''),
      checksum = digest env,
      accessLog = [],
      createdAt = saved_at env\<rparr>"

definition uploadDocument ::
  "config \<Rightarrow> upload_env \<Rightarrow> req_user \<Rightarrow> string \<Rightarrow> upload_file option \<Rightarrow> upload_body \<Rightarrow>
   project list \<Rightarrow> document list \<Rightarrow> document response \<times> document list" where
  "uploadDocument cfg env requser projectId req_file body projects documents =
     (case req_file of
        None \<Rightarrow> (json 400 False ''No file provided'', documents)
      | Some file \<Rightarrow>
          (case find_by project_id projectId projects of
             None \<Rightarrow> (json 404 False ''Project not found'', documents)
           | Some p \<Rightarrow>
               if \<not> canUploadToProject requser p
               then (json 403 False
                       ''You do not have permission to upload documents to this project'',
                     documents)
               else (case validateUploadFile cfg file (ext env) of
                 Some err \<Rightarrow> (json 400 False err, documents)
               | None \<Rightarrow>
                   (case cloudinaryResult env of
                      None \<Rightarrow> (json 500 False ''Failed to upload file to cloud storage'', documents)
                    | Some (secure_url, public_id) \<Rightarrow>
                        let d = new_document env requser projectId file body p
                                  secure_url public_id in
                        if \<not> document_valid d \<or> filePath_taken d documents
                        then (json 500 False ''Internal server error'', documents)
                        else (json_data 201 True ''Document uploaded successfully'' d,
                              documents @ [d])))))"

text \<open>\<open>document.logAccess(userId, action)\<close>: one more audit entry, saved.\<close>

definition logAccess :: "int \<Rightarrow> string \<Rightarrow> string \<Rightarrow> document \<Rightarrow> document" where
  "logAccess now uid act d =
     d\<lparr>accessLog := accessLog d @ [\<lparr>log_userId = uid, accessedAt = now, action = act\<rparr>]\<rparr>"

definition viewDocument ::
  "int \<Rightarrow> req_user \<Rightarrow> string \<Rightarrow> document list \<Rightarrow> document response \<times> document list" where
  "viewDocument now requser i documents =
     (case find_by document_id i documents of
        None \<Rightarrow> (json 404 False ''Document not found'', documents)
      | Some d \<Rightarrow>
          if \<not> canAccessDocument requser d
          then (json 403 False ''You do not have access to this document'', documents)
          else (json_data 200 True [] (logAccess now (req_id requser) ''viewed'' d),
                update_by document_id i (logAccess now (req_id requser) ''viewed'') documents))"

text \<open>A download answers with a redirect (302) to the stored location.\<close>

definition downloadDocument ::
  "int \<Rightarrow> req_user \<Rightarrow> string \<Rightarrow> document list \<Rightarrow> string response \<times> document list" where
  "downloadDocument now requser i documents =
     (case find_by document_id i documents of
        None \<Rightarrow> (json 404 False ''Document not found'', documents)
      | Some d \<Rightarrow>
          if \<not> canAccessDocument requser d
          then (json 403 False ''You do not have access to this document'', documents)
          else (json_data 302 True []
                  (if storageType d = ''cloudinary'' \<and> truthy (cloudinaryUrl d)
                   then (case cloudinaryUrl d of Some url \<Rightarrow> url | None \<Rightarrow> filePath d)
                   else filePath d),
                update_by document_id i (logAccess now (req_id requser) ''downloaded'')
                  documents))"

record update_document_body =
  upd_classification :: "string option"
  upd_accessibleBy :: "access_entry list option"

definition updateDocument ::
  "req_user \<Rightarrow> string \<Rightarrow> update_document_body \<Rightarrow> project list \<Rightarrow> document list \<Rightarrow>
   document response \<times> document list" where
  "updateDocument requser i body projects documents =
     (case find_by document_id i documents of
        None \<Rightarrow> (json 404 False ''Document not found'', documents)
      | Some d \<Rightarrow>
          (case find_by project_id (doc_project d) projects of
             None \<Rightarrow> (json 404 False ''Associated project not found'', documents)
           | Some p \<Rightarrow>
               if \<not> canUploadToProject requser p
               then (json 403 False
                       ''You do not have permission to update documents in this project'',
                     documents)
               else
                 let cls = (if truthy (upd_classification body) then upd_classification body
                            else None) in
                 if (case cls of
                       Some c \<Rightarrow>
                         c \<notin> set [''public'', ''internal'', ''confidential'', ''restricted'']
                     | None \<Rightarrow> False)
                 then (json 400 False ''Invalid classification value'', documents)
                 else
                   let d1 = (case cls of Some c \<Rightarrow> d\<lparr>classification := c\<rparr> | None \<Rightarrow> d);
                       d2 = (case upd_accessibleBy body of
                               Some l \<Rightarrow> d1\<lparr>accessibleBy := l\<rparr>
                             | None \<Rightarrow> d1) in
                   if \<not> document_valid d2
                   then (json 500 False ''Internal server error'', documents)
                   else (json_data 200 True ''Document updated successfully'' d2,
                         update_by document_id i (\<lambda>x. d2) documents)))"

section \<open>Route-level gate and observations\<close>

text \<open>
  The route files put \<open>authenticate\<close> and then \<open>authorize(...)\<close> in front of a
  handler (\<open>router.use(authenticate, authorize('admin'))\<close>); \<open>role_gate\<close> is
  that prefix: the response that stops the request, or \<open>None\<close> when the handler runs.
\<close>

definition role_gate ::
  "config \<Rightarrow> int \<Rightarrow> user list \<Rightarrow> string list \<Rightarrow> authorization option \<Rightarrow> unit response option" where
  "role_gate cfg now users allowedRoles authHeader =
     (case authenticate cfg now users authHeader of
        Inl r \<Rightarrow> Some r
      | Inr requser \<Rightarrow> authorize allowedRoles (Some requser))"

text \<open>The outstanding completion requests of a project: requested and not yet reviewed.\<close>

definition outstanding :: "string \<Rightarrow> msg list \<Rightarrow> msg list" where
  "outstanding projectId messages =
     filter (\<lambda>m. msg_project m = projectId \<and> msg_type m = ''completion-request''
                 \<and> reviewedBy m = None) messages"

section \<open>Example data\<close>

definition cfg0 :: config where
  "cfg0 = \<lparr>jwt_secret = ''access-secret'', jwt_refreshSecret = ''refresh-secret'',
            jwt_expiration = 900, jwt_refreshExpiration = 604800,
            maxFileSize = 5242880, allowedFileTypes = [''pdf'', ''doc'', ''docx'', ''txt'']\<rparr>"

definition admin_doc :: user where
  "admin_doc = \<lparr>user_id = ''a1'', username = ''root@x.io'', email = ''root@x.io'',
                 password = bcrypt_hash ''Adm1n!pass'', role = ''admin'', fullName = ''Root'',
                 isActive = True, lastLogin = None, mfaEnabled = False,
                 passwordChangedAt = Some 0, loginAttempts = 0, lockUntil = None\<rparr>"

definition dev_doc :: user where
  "dev_doc = \<lparr>user_id = ''d1'', username = ''dev@x.io'', email = ''dev@x.io'',
               password = bcrypt_hash ''Dev!pass1'', role = ''developer'', fullName = ''Dev'',
               isActive = True, lastLogin = None, mfaEnabled = False,
               passwordChangedAt = Some 0, loginAttempts = 0, lockUntil = None\<rparr>"

definition admin_ctx :: req_user where
  "admin_ctx = \<lparr>req_id = ''a1'', req_role = ''admin'', req_email = ''root@x.io''\<rparr>"

definition lead_ctx :: req_user where
  "lead_ctx = \<lparr>req_id = ''l1'', req_role = ''project-lead'', req_email = ''lead@x.io''\<rparr>"

definition dev_ctx :: req_user where
  "dev_ctx = \<lparr>req_id = ''d1'', req_role = ''developer'', req_email = ''dev@x.io''\<rparr>"

definition dev2_ctx :: req_user where
  "dev2_ctx = \<lparr>req_id = ''d2'', req_role = ''developer'', req_email = ''dev2@x.io''\<rparr>"

definition outsider_ctx :: req_user where
  "outsider_ctx = \<lparr>req_id = ''d3'', req_role = ''developer'', req_email = ''d3@x.io''\<rparr>"

definition project0 :: project where
  "project0 = \<lparr>project_id = ''p1'', name = ''Nexus'', description = ''demo'',
                status = ''active'', createdBy = ''a1'', projectLead = Some ''l1'',
                assignedDevelopers = [''d1'', ''d2''], priority = ''medium'',
                lastModifiedBy = None\<rparr>"

text \<open>
  A project the admin has created without naming a lead: \<open>createProject\<close> stores
  \<open>projectLead: projectLead || req.user.id\<close>, the creator.
\<close>

definition project_by_admin :: project where
  "project_by_admin = \<lparr>project_id = ''p2'', name = ''Forge'', description = ''demo'',
                        status = ''active'', createdBy = ''a1'', projectLead = Some ''a1'',
                        assignedDevelopers = [''d1'', ''d2''], priority = ''medium'',
                        lastModifiedBy = Some ''a1''\<rparr>"

definition request0 :: msg where
  "request0 = \<lparr>message_id = ''m1'', msg_project = ''p1'', sender = ''d1'',
                content = ''done'', msg_type = ''completion-request'', reviewedBy = None,
                reviewedAt = None, reviewResponse = None, isRead = False\<rparr>"

definition file0 :: upload_file where
  "file0 = \<lparr>originalname = ''plan.pdf'', size = 1024, mimetype = ''application/pdf''\<rparr>"

definition env0 :: upload_env where
  "env0 = \<lparr>ext = ''pdf'', sanitizedName = ''plan_1700000000000_ab12cd34.pdf'',
            digest = ''9f86d081'', cloudinaryResult = Some (''https://cdn/plan'', ''plan_id''),
            new_document_id = ''doc1'', saved_at = 1700000000500\<rparr>"

definition document0 :: document where
  "document0 = \<lparr>document_id = ''doc1'', fileName = ''plan_1700000000000_ab12cd34.pdf'',
                 originalFileName = ''plan.pdf'', filePath = ''https://cdn/plan'',
                 cloudinaryPublicId = Some ''plan_id'', cloudinaryUrl = Some ''https://cdn/plan'',
                 storageType = ''cloudinary'', fileSize = 1024, mimeType = ''application/pdf'',
                 doc_project = ''p1'', uploadedBy = ''l1'',
                 accessibleBy = [\<lparr>userId = ''l1'', granted_role = ''project-lead''\<rparr>,
                                 \<lparr>userId = ''d1'', granted_role = ''developer''\<rparr>,
                                 \<lparr>userId = ''d2'', granted_role = ''developer''\<rparr>],
                 classification = ''internal'', checksum = ''9f86d081'', accessLog = [],
                 createdAt = 1700000000500\<rparr>"

definition inactive_doc :: user where
  "inactive_doc = \<lparr>user_id = ''d9'', username = ''gone@x.io'', email = ''gone@x.io'',
                    password = bcrypt_hash ''Gone!pass1'', role = ''developer'',
                    fullName = ''Gone'', isActive = False, lastLogin = None,
                    mfaEnabled = False, passwordChangedAt = Some 0, loginAttempts = 0,
                    lockUntil = None\<rparr>"

text \<open>An admin whose id is an object id in its usual rendering, and the account.\<close>

definition admin2_ctx :: req_user where
  "admin2_ctx = \<lparr>req_id = ''65a1b2c3d4e5f60718293a4b'', req_role = ''admin'',
                  req_email = ''root@x.io''\<rparr>"

definition admin2_doc :: user where
  "admin2_doc = admin_doc\<lparr>user_id := ''65a1b2c3d4e5f60718293a4b''\<rparr>"

text \<open>Five login requests for one account, a wrong password each, at 1 s, 2 s, ... 5 s.\<close>

definition five_wrong :: "string \<Rightarrow> (int \<times> login_body) list" where
  "five_wrong n =
     [(1000, \<lparr>body_username = n, body_password = ''guess1''\<rparr>),
      (2000, \<lparr>body_username = n, body_password = ''guess2''\<rparr>),
      (3000, \<lparr>body_username = n, body_password = ''guess3''\<rparr>),
      (4000, \<lparr>body_username = n, body_password = ''guess4''\<rparr>),
      (5000, \<lparr>body_username = n, body_password = ''guess5''\<rparr>)]"

section \<open>Verified properties\<close>

lemma getId_Some: "getId (Some v) = Some v"
  by (simp add: getId_def)

subsection \<open>Collections\<close>

lemma find_by_update_by:
  assumes "\<And>x. key (f x) = key x"
  shows "find_by key j (update_by key i f xs)
         = (if j = i then map_option f (find_by key i xs) else find_by key j xs)"
  using assms by (induction xs) (auto simp: find_by_def)

lemma update_by_absent:
  "find_by key i xs = None \<Longrightarrow> update_by key i f xs = xs"
  by (induction xs) (auto simp: find_by_def split: if_splits)

lemma map_key_update_by:
  assumes "\<And>x. key (f x) = key x"
  shows "map key (update_by key i f xs) = map key xs"
  using assms by (induction xs) auto

text \<open>
  A query that found \<open>u\<close> finds the updated \<open>u\<close> after an update by \<open>u\<close>'s id,
  when ids are unique and the update leaves the queried fields alone.
\<close>

lemma find_update_by_found:
  assumes "find P xs = Some u" and "distinct (map key xs)"
      and "\<And>x. P (f x) = P x"
  shows "find P (update_by key (key u) f xs) = Some (f u)"
  using assms
proof (induction xs)
  case Nil
  then show ?case by simp
next
  case (Cons x xs)
  show ?case
  proof (cases "P x")
    case True
    with Cons.prems have "u = x" by simp
    with True Cons.prems(3) show ?thesis by simp
  next
    case False
    with Cons.prems have fu: "find P xs = Some u" by simp
    then have "u \<in> set xs" by (auto simp: find_Some_iff)
    with Cons.prems(2) have "key x \<noteq> key u" by auto
    moreover from Cons.prems(2) have "distinct (map key xs)" by simp
    ultimately show ?thesis
      using False Cons.IH [OF fu _ Cons.prems(3)] by simp
  qed
qed

subsection \<open>Project and document read decisions\<close>

text \<open>
  Claim C4 (developer containment). For every project and every subject whose role is
  developer, the project read decision \<open>hasProjectAccess\<close> is true exactly when
  the subject's id is among the project's assigned developers, and the project modify
  decision \<open>canModifyProject\<close> is false.
\<close>

theorem developer_containment:
  assumes "req_role d = ''developer''"
  shows "(hasProjectAccess d p \<longleftrightarrow> req_id d \<in> set (assignedDevelopers p))
         \<and> \<not> canModifyProject d p"
proof -
  from assms have ne: "req_role d \<noteq> ''admin''" "req_role d \<noteq> ''project-lead''"
    by simp_all
  have img: "(Some (req_id d) \<in> set (map (\<lambda>dev. getId (Some dev)) (assignedDevelopers p)))
             = (req_id d \<in> set (assignedDevelopers p))"
    by (auto simp: getId_Some)
  have rd: "hasProjectAccess d p = (req_id d \<in> set (assignedDevelopers p))"
    unfolding hasProjectAccess_def using assms ne img by simp
  have md: "\<not> canModifyProject d p"
    unfolding canModifyProject_def using ne by simp
  from rd md show ?thesis by simp
qed

text \<open>
  An assigned developer reads the example project and cannot modify it; a developer
  who is not assigned cannot read it.
\<close>

theorem developer_containment_witness:
  "req_role dev_ctx = ''developer''
   \<and> hasProjectAccess dev_ctx project0 \<and> \<not> canModifyProject dev_ctx project0
   \<and> req_role outsider_ctx = ''developer''
   \<and> \<not> hasProjectAccess outsider_ctx project0 \<and> \<not> canModifyProject outsider_ctx project0"
  using developer_containment [of dev_ctx project0]
        developer_containment [of outsider_ctx project0]
  by (simp add: dev_ctx_def outsider_ctx_def project0_def)

text \<open>
  Claim C5 (admin supremacy on read and list). For every subject whose role is admin:
  the project read decision is true for every project (in the project controller and
  in the document controller's copy), the document read decision is true for every
  document whatever its \<open>accessibleBy\<close> list holds, the filter \<open>listProjects\<close>
  builds is the empty filter, so the listing returns every project, and the document
  listing of an existing project answers 200 with all documents of that project, each
  once, the newest first.
\<close>

theorem admin_supremacy:
  assumes "req_role a = ''admin''"
  shows "hasProjectAccess a p \<and> canAccessProject a p \<and> canAccessDocument a d
         \<and> listProjects_filter a = Filter_empty
         \<and> listProjects a projects = (200, projects)
         \<and> (find_by project_id projectId projects \<noteq> None \<longrightarrow>
              (\<exists>ds. listProjectDocuments a projectId projects documents
                      = json_data 200 True [] ds
                    \<and> set ds = {x \<in> set documents. doc_project x = projectId}
                    \<and> length ds = length (filter (\<lambda>x. doc_project x = projectId) documents)
                    \<and> sorted_wrt (\<lambda>x y. createdAt y \<le> createdAt x) ds))"
proof -
  from assms have ne: "req_role a \<noteq> ''developer''" "req_role a \<noteq> ''project-lead''"
    by simp_all
  have f: "listProjects_filter a = Filter_empty"
    unfolding listProjects_filter_def using ne by simp
  have l: "listProjects a projects = (200, projects)"
    unfolding listProjects_def f by simp
  have r: "hasProjectAccess a p"
    unfolding hasProjectAccess_def using assms by simp
  have r': "canAccessProject a q" for q
    unfolding canAccessProject_def using assms by simp
  have c: "canAccessDocument a d"
    unfolding canAccessDocument_def using assms by simp
  let ?ds = "sort_createdAt_desc (filter (\<lambda>x. doc_project x = projectId) documents)"
  have s: "set ?ds = {x \<in> set documents. doc_project x = projectId}"
    "length ?ds = length (filter (\<lambda>x. doc_project x = projectId) documents)"
    by (simp_all add: sort_createdAt_desc_def)
  have "sorted (map (\<lambda>x. - createdAt x) ?ds)"
    unfolding sort_createdAt_desc_def by (rule sorted_sort_key)
  then have o: "sorted_wrt (\<lambda>x y. createdAt y \<le> createdAt x) ?ds"
    by (simp add: sorted_map)
  have ld: "\<exists>ds. listProjectDocuments a projectId projects documents
                   = json_data 200 True [] ds
                 \<and> set ds = {x \<in> set documents. doc_project x = projectId}
                 \<and> length ds = length (filter (\<lambda>x. doc_project x = projectId) documents)
                 \<and> sorted_wrt (\<lambda>x y. createdAt y \<le> createdAt x) ds"
    if "find_by project_id projectId projects \<noteq> None"
  proof -
    from that assms r'
    have "listProjectDocuments a projectId projects documents = json_data 200 True [] ?ds"
      by (auto simp: listProjectDocuments_def)
    with s o show ?thesis by blast
  qed
  from f l r r' c ld show ?thesis by blast
qed

text \<open>
  The example admin, who neither leads the example project nor is on the access list
  of the example document, reads both and lists the project and its document.
\<close>

theorem admin_supremacy_witness:
  "req_role admin_ctx = ''admin''
   \<and> req_id admin_ctx \<notin> userId ` set (accessibleBy document0)
   \<and> hasProjectAccess admin_ctx project0 \<and> canAccessDocument admin_ctx document0
   \<and> listProjects_filter admin_ctx = Filter_empty
   \<and> listProjects admin_ctx [project0] = (200, [project0])
   \<and> find_by project_id ''p1'' [project0] \<noteq> None
   \<and> listProjectDocuments admin_ctx ''p1'' [project0] [document0]
     = json_data 200 True [] [document0]"
proof -
  have a: "req_role admin_ctx = ''admin''"
    "req_id admin_ctx \<notin> userId ` set (accessibleBy document0)"
    "find_by project_id ''p1'' [project0] \<noteq> None" "doc_project document0 = ''p1''"
    by (simp_all add: admin_ctx_def document0_def find_by_def project0_def)
  note t = admin_supremacy [OF a(1), of project0 document0 "[project0]" "''p1''" "[document0]"]
  from t a(3) obtain ds where
    ds: "listProjectDocuments admin_ctx ''p1'' [project0] [document0]
         = json_data 200 True [] ds"
    and "set ds = {x \<in> set [document0]. doc_project x = ''p1''}"
    and "length ds = length (filter (\<lambda>x. doc_project x = ''p1'') [document0])"
    by blast
  with a(4) have "set ds = {document0}" "length ds = 1" by auto
  then have "ds = [document0]"
    by (cases ds) auto
  with ds t a show ?thesis by simp
qed

subsection \<open>Lockout\<close>

lemma verifyPassword_attempts [simp]:
  "verifyPassword (u\<lparr>loginAttempts := k, lockUntil := l\<rparr>) w = verifyPassword u w"
  by (simp add: verifyPassword_def)

lemma login_query_update [simp]:
  "login_query n (u\<lparr>loginAttempts := k\<rparr>) = login_query n u"
  "login_query n (u\<lparr>lockUntil := l\<rparr>) = login_query n u"
  "login_query n (u\<lparr>lastLogin := t\<rparr>) = login_query n u"
  by (simp_all add: login_query_def)

text \<open>A wrong password on an active, unlocked account: 401 and one more counted failure.\<close>

lemma login_failed:
  assumes f: "find (login_query (body_username b)) users = Some u"
      and d: "distinct (map user_id users)"
      and a: "isActive u" and l: "lockUntil u = None"
      and w: "\<not> verifyPassword u (body_password b)"
  shows "fst (login cfg now b users) = json 401 False ''Invalid username or password''
         \<and> find (login_query (body_username b)) (snd (login cfg now b users))
             = Some (u\<lparr>loginAttempts := loginAttempts u + 1,
                       lockUntil := (if loginAttempts u + 1 \<ge> 5
                                     then Some (now + 7200000) else None)\<rparr>)
         \<and> distinct (map user_id (snd (login cfg now b users)))"
proof -
  let ?P = "login_query (body_username b)"
  have nl: "\<not> isLocked now u" using l by (simp add: isLocked_def)
  have r: "login cfg now b users
           = (json 401 False ''Invalid username or password'', incLoginAttempts now u users)"
    unfolding login_def login_at_def using f nl a w by simp
  show ?thesis
  proof (cases "loginAttempts u + 1 \<ge> 5")
    case True
    let ?g = "\<lambda>d. d\<lparr>loginAttempts := loginAttempts d + 1,
                     lockUntil := Some (now + 2 * 60 * 60 * 1000)\<rparr>"
    have i: "incLoginAttempts now u users = update_by user_id (user_id u) ?g users"
      unfolding incLoginAttempts_def using l True by simp
    have "find ?P (update_by user_id (user_id u) ?g users) = Some (?g u)"
      by (rule find_update_by_found [OF f d]) simp
    moreover have "map user_id (update_by user_id (user_id u) ?g users) = map user_id users"
      by (rule map_key_update_by) simp
    ultimately show ?thesis using r i d True by simp
  next
    case False
    let ?g = "\<lambda>d. d\<lparr>loginAttempts := loginAttempts d + 1\<rparr>"
    have i: "incLoginAttempts now u users = update_by user_id (user_id u) ?g users"
      unfolding incLoginAttempts_def using l False by simp
    have "find ?P (update_by user_id (user_id u) ?g users) = Some (?g u)"
      by (rule find_update_by_found [OF f d]) simp
    moreover have "map user_id (update_by user_id (user_id u) ?g users) = map user_id users"
      by (rule map_key_update_by) simp
    moreover have "?g u = u\<lparr>loginAttempts := loginAttempts u + 1, lockUntil := None\<rparr>"
      using l by simp
    ultimately show ?thesis using r i d False by simp
  qed
qed

text \<open>While the lock runs, the answer is the lock message whatever the password is.\<close>

lemma login_locked:
  assumes f: "find (login_query (body_username b)) users = Some u"
      and l: "lockUntil u = Some t" and n: "now < t"
  shows "login cfg now b users
         = (json 403 False
              ''Account is locked due to too many failed login attempts. Please try again later.'',
            users)"
  unfolding login_def login_at_def using f l n by (simp add: isLocked_def)

lemma login_success:
  assumes f: "find (login_query (body_username b)) users = Some u"
      and d: "distinct (map user_id users)"
      and a: "isActive u" and m: "\<not> mfaEnabled u"
      and nl: "\<not> isLocked now u"
      and w: "verifyPassword u (body_password b)"
  shows "fst (login cfg now b users)
         = json_data 200 True ''Login successful''
             (Tokens (generateAccessToken cfg now (user_id u) (role u))
                     (generateRefreshToken cfg now (user_id u)))
         \<and> find (login_query (body_username b)) (snd (login cfg now b users))
             = Some (u\<lparr>loginAttempts := 0, lastLogin := Some now, lockUntil := None\<rparr>)"
proof -
  let ?P = "login_query (body_username b)"
  let ?g = "\<lambda>d. d\<lparr>loginAttempts := 0, lastLogin := Some now, lockUntil := None\<rparr>"
  have r: "login cfg now b users
           = (json_data 200 True ''Login successful''
                (Tokens (generateAccessToken cfg now (user_id u) (role u))
                        (generateRefreshToken cfg now (user_id u))),
              resetLoginAttempts now u users)"
    unfolding login_def login_at_def using f nl a w m by simp
  have "find ?P (update_by user_id (user_id u) ?g users) = Some (?g u)"
    by (rule find_update_by_found [OF f d]) simp
  then show ?thesis using r by (simp add: resetLoginAttempts_def)
qed

text \<open>
  The branch for an account with \<open>mfaEnabled\<close>: the correct password is answered with
  the prompt for the second factor and nothing is written. The schema gives
  \<open>mfaEnabled\<close> the default \<open>false\<close> and no handler of the repository assigns it.
\<close>

lemma login_mfa:
  assumes f: "find (login_query (body_username b)) users = Some u"
      and a: "isActive u" and m: "mfaEnabled u"
      and nl: "\<not> isLocked now u"
      and w: "verifyPassword u (body_password b)"
  shows "login cfg now b users
         = (json_data 200 True ''MFA verification required''
              (Mfa_required (generateAccessToken cfg now (user_id u) (role u))),
            users)"
  unfolding login_def login_at_def using f nl a w m by simp

text \<open>
  Claim C3 (lockout threshold), as amended. For every active subject with zero failed
  attempts and no lock, in a store with unique ids, whose login requests are handled
  one after the other: after five consecutive logins with a wrong password (at any
  instants \<open>t1\<close> ... \<open>t5\<close>) the stored account has five counted failures and
  \<open>lockUntil = t5 + 2 h\<close>; a login at any instant before \<open>lockUntil\<close> is answered
  with the lock message and changes nothing, whatever password it presents, the
  correct one included; a login with the correct password at or after \<open>lockUntil\<close> is
  answered 200, and for an account whose \<open>mfaEnabled\<close> is false, as it is for every
  account the handlers create or change, the answer carries fresh tokens and the
  stored counter is 0 and the lock cleared. The name the client sends is matched as the
  schema casts it, in lower case and trimmed.
\<close>

theorem lockout_threshold:
  assumes d: "distinct (map user_id users)"
      and f: "find (login_query n) users = Some u"
      and a: "isActive u"
      and z: "loginAttempts u = 0" and l: "lockUntil u = None"
      and ok: "verifyPassword u pw"
      and bad: "\<not> verifyPassword u w1" "\<not> verifyPassword u w2" "\<not> verifyPassword u w3"
               "\<not> verifyPassword u w4" "\<not> verifyPassword u w5"
      and run: "users5 = login_run cfg
                  [(t1, \<lparr>body_username = n, body_password = w1\<rparr>),
                   (t2, \<lparr>body_username = n, body_password = w2\<rparr>),
                   (t3, \<lparr>body_username = n, body_password = w3\<rparr>),
                   (t4, \<lparr>body_username = n, body_password = w4\<rparr>),
                   (t5, \<lparr>body_username = n, body_password = w5\<rparr>)] users"
  shows "find (login_query n) users5
           = Some (u\<lparr>loginAttempts := 5, lockUntil := Some (t5 + 2 * 60 * 60 * 1000)\<rparr>)
         \<and> (\<forall>t6 p6. t6 < t5 + 2 * 60 * 60 * 1000 \<longrightarrow>
               login cfg t6 \<lparr>body_username = n, body_password = p6\<rparr> users5
               = (json 403 False
                    ''Account is locked due to too many failed login attempts. Please try again later.'',
                  users5))
         \<and> (\<forall>t7. t5 + 2 * 60 * 60 * 1000 \<le> t7 \<longrightarrow>
               http_status (fst (login cfg t7 \<lparr>body_username = n, body_password = pw\<rparr> users5))
               = 200
               \<and> (\<not> mfaEnabled u \<longrightarrow>
                    fst (login cfg t7 \<lparr>body_username = n, body_password = pw\<rparr> users5)
                    = json_data 200 True ''Login successful''
                        (Tokens (generateAccessToken cfg t7 (user_id u) (role u))
                                (generateRefreshToken cfg t7 (user_id u)))
                    \<and> find (login_query n)
                         (snd (login cfg t7 \<lparr>body_username = n, body_password = pw\<rparr> users5))
                       = Some (u\<lparr>loginAttempts := 0, lastLogin := Some t7,
                                 lockUntil := None\<rparr>)))"
proof -
  let ?P = "login_query n"
  let ?b = "\<lambda>w. \<lparr>body_username = n, body_password = w\<rparr>"
  define s1 where "s1 = snd (login cfg t1 (?b w1) users)"
  define s2 where "s2 = snd (login cfg t2 (?b w2) s1)"
  define s3 where "s3 = snd (login cfg t3 (?b w3) s2)"
  define s4 where "s4 = snd (login cfg t4 (?b w4) s3)"
  define s5 where "s5 = snd (login cfg t5 (?b w5) s4)"
  have u5: "users5 = s5"
    unfolding run s5_def s4_def s3_def s2_def s1_def by simp
  have 1: "find ?P s1 = Some (u\<lparr>loginAttempts := 1, lockUntil := None\<rparr>)
           \<and> distinct (map user_id s1)"
    using login_failed [of "?b w1" users u cfg t1] f d a l bad(1) z
    unfolding s1_def by simp
  have 2: "find ?P s2 = Some (u\<lparr>loginAttempts := 2, lockUntil := None\<rparr>)
           \<and> distinct (map user_id s2)"
    using login_failed [of "?b w2" s1 "u\<lparr>loginAttempts := 1, lockUntil := None\<rparr>" cfg t2]
      1 a bad(2)
    unfolding s2_def by simp
  have 3: "find ?P s3 = Some (u\<lparr>loginAttempts := 3, lockUntil := None\<rparr>)
           \<and> distinct (map user_id s3)"
    using login_failed [of "?b w3" s2 "u\<lparr>loginAttempts := 2, lockUntil := None\<rparr>" cfg t3]
      2 a bad(3)
    unfolding s3_def by simp
  have 4: "find ?P s4 = Some (u\<lparr>loginAttempts := 4, lockUntil := None\<rparr>)
           \<and> distinct (map user_id s4)"
    using login_failed [of "?b w4" s3 "u\<lparr>loginAttempts := 3, lockUntil := None\<rparr>" cfg t4]
      3 a bad(4)
    unfolding s4_def by simp
  have 5: "find ?P s5 = Some (u\<lparr>loginAttempts := 5, lockUntil := Some (t5 + 7200000)\<rparr>)
           \<and> distinct (map user_id s5)"
    using login_failed [of "?b w5" s4 "u\<lparr>loginAttempts := 4, lockUntil := None\<rparr>" cfg t5]
      4 a bad(5)
    unfolding s5_def by simp
  let ?u5 = "u\<lparr>loginAttempts := 5, lockUntil := Some (t5 + 7200000)\<rparr>"
  have A: "find ?P users5
           = Some (u\<lparr>loginAttempts := 5, lockUntil := Some (t5 + 2 * 60 * 60 * 1000)\<rparr>)"
    using 5 u5 by simp
  have B: "login cfg t6 (?b p6) users5
           = (json 403 False
                ''Account is locked due to too many failed login attempts. Please try again later.'',
              users5)"
    if "t6 < t5 + 2 * 60 * 60 * 1000" for t6 p6
    using login_locked [of "?b p6" users5 ?u5 "t5 + 7200000" t6 cfg] 5 u5 that by simp
  have C: "fst (login cfg t7 (?b pw) users5)
             = json_data 200 True ''Login successful''
                 (Tokens (generateAccessToken cfg t7 (user_id u) (role u))
                         (generateRefreshToken cfg t7 (user_id u)))
           \<and> find ?P (snd (login cfg t7 (?b pw) users5))
             = Some (u\<lparr>loginAttempts := 0, lastLogin := Some t7, lockUntil := None\<rparr>)"
    if "t5 + 2 * 60 * 60 * 1000 \<le> t7" and "\<not> mfaEnabled u" for t7
  proof -
    have nl: "\<not> isLocked t7 ?u5" using that(1) by (simp add: isLocked_def)
    show ?thesis
      using login_success [of "?b pw" users5 ?u5 t7 cfg] 5 u5 a that(2) nl ok by simp
  qed
  have D: "login cfg t7 (?b pw) users5
           = (json_data 200 True ''MFA verification required''
                (Mfa_required (generateAccessToken cfg t7 (user_id u) (role u))),
              users5)"
    if "t5 + 2 * 60 * 60 * 1000 \<le> t7" and "mfaEnabled u" for t7
  proof -
    have nl: "\<not> isLocked t7 ?u5" using that(1) by (simp add: isLocked_def)
    show ?thesis
      using login_mfa [of "?b pw" users5 ?u5 t7 cfg] 5 u5 a that(2) nl ok by simp
  qed
  have E: "http_status (fst (login cfg t7 (?b pw) users5)) = 200"
    if "t5 + 2 * 60 * 60 * 1000 \<le> t7" for t7
  proof (cases "mfaEnabled u")
    case True
    with D [OF that] show ?thesis by (simp add: json_data_def)
  next
    case False
    with C [OF that] show ?thesis by (simp add: json_data_def)
  qed
  from A B C E show ?thesis by blast
qed

text \<open>
  The example developer, addressed as \<open>Dev@X.io\<close> with a trailing blank: five wrong
  guesses between 1 s and 5 s lock the account until 7205 s; the correct password at
  6 s is answered with the lock message; the correct password at 7205 s logs in and
  resets the account.
\<close>

theorem lockout_threshold_witness:
  "distinct (map user_id [admin_doc, dev_doc])
   \<and> find (login_query ''Dev@X.io '') [admin_doc, dev_doc] = Some dev_doc
   \<and> isActive dev_doc \<and> \<not> mfaEnabled dev_doc
   \<and> loginAttempts dev_doc = 0 \<and> lockUntil dev_doc = None
   \<and> verifyPassword dev_doc ''Dev!pass1''
   \<and> find (login_query ''Dev@X.io '')
       (login_run cfg0 (five_wrong ''Dev@X.io '') [admin_doc, dev_doc])
     = Some (dev_doc\<lparr>loginAttempts := 5, lockUntil := Some 7205000\<rparr>)
   \<and> fst (login cfg0 6000 \<lparr>body_username = ''Dev@X.io '', body_password = ''Dev!pass1''\<rparr>
            (login_run cfg0 (five_wrong ''Dev@X.io '') [admin_doc, dev_doc]))
     = json 403 False
         ''Account is locked due to too many failed login attempts. Please try again later.''
   \<and> find (login_query ''Dev@X.io '')
       (snd (login cfg0 7205000 \<lparr>body_username = ''Dev@X.io '', body_password = ''Dev!pass1''\<rparr>
               (login_run cfg0 (five_wrong ''Dev@X.io '') [admin_doc, dev_doc])))
     = Some (dev_doc\<lparr>loginAttempts := 0, lastLogin := Some 7205000, lockUntil := None\<rparr>)"
proof -
  let ?n = "''Dev@X.io ''"
  let ?s5 = "login_run cfg0 (five_wrong ?n) [admin_doc, dev_doc]"
  let ?P = "login_query ?n"
  have c: "trim (toLowerCase ?n) = ''dev@x.io''"
    by (simp add: trim_def toLowerCase_def isWhitespace_def char_of_def bit_Suc_0_iff)
  have d: "distinct (map user_id [admin_doc, dev_doc])"
    by (simp add: admin_doc_def dev_doc_def)
  have f: "find ?P [admin_doc, dev_doc] = Some dev_doc"
    unfolding login_query_def c by (simp add: admin_doc_def dev_doc_def)
  have p: "isActive dev_doc" "\<not> mfaEnabled dev_doc" "loginAttempts dev_doc = 0"
    "lockUntil dev_doc = None" "verifyPassword dev_doc ''Dev!pass1''"
    "\<not> verifyPassword dev_doc ''guess1''" "\<not> verifyPassword dev_doc ''guess2''"
    "\<not> verifyPassword dev_doc ''guess3''" "\<not> verifyPassword dev_doc ''guess4''"
    "\<not> verifyPassword dev_doc ''guess5''"
    by (simp_all add: dev_doc_def verifyPassword_def bcrypt_hash_def)
  have r: "?s5 = login_run cfg0
                  [(1000, \<lparr>body_username = ?n, body_password = ''guess1''\<rparr>),
                   (2000, \<lparr>body_username = ?n, body_password = ''guess2''\<rparr>),
                   (3000, \<lparr>body_username = ?n, body_password = ''guess3''\<rparr>),
                   (4000, \<lparr>body_username = ?n, body_password = ''guess4''\<rparr>),
                   (5000, \<lparr>body_username = ?n, body_password = ''guess5''\<rparr>)]
                  [admin_doc, dev_doc]"
    by (simp only: five_wrong_def)
  note t = lockout_threshold
             [OF d f p(1) p(3) p(4) p(5) p(6) p(7) p(8) p(9) p(10) r]
  from t have A: "find ?P ?s5 = Some (dev_doc\<lparr>loginAttempts := 5, lockUntil := Some 7205000\<rparr>)"
    by simp
  from t have "\<forall>t6 p6. t6 < 7205000 \<longrightarrow>
      login cfg0 t6 \<lparr>body_username = ?n, body_password = p6\<rparr> ?s5
      = (json 403 False
           ''Account is locked due to too many failed login attempts. Please try again later.'',
         ?s5)"
    by simp
  then have B: "fst (login cfg0 6000 \<lparr>body_username = ?n, body_password = ''Dev!pass1''\<rparr> ?s5)
      = json 403 False
          ''Account is locked due to too many failed login attempts. Please try again later.''"
    by simp
  from t p(2) have "\<forall>t7. 7205000 \<le> t7 \<longrightarrow>
      find ?P (snd (login cfg0 t7 \<lparr>body_username = ?n, body_password = ''Dev!pass1''\<rparr> ?s5))
      = Some (dev_doc\<lparr>loginAttempts := 0, lastLogin := Some t7, lockUntil := None\<rparr>)"
    by simp
  then have C: "find ?P (snd (login cfg0 7205000
                      \<lparr>body_username = ?n, body_password = ''Dev!pass1''\<rparr> ?s5))
      = Some (dev_doc\<lparr>loginAttempts := 0, lastLogin := Some 7205000, lockUntil := None\<rparr>)"
    by simp
  from d f p(1-5) A B C show ?thesis by simp
qed

text \<open>
  The claim as stated fails in two ways. For a deactivated account with zero failed
  attempts and no lock, \<open>login\<close> answers ``deactivated'' before it looks at the
  password, so five failed logins leave the account as it was, with no lock. And for
  the active example developer, five logins with a wrong password that overlap (each
  has read the account before any of them writes) all decide on the counter 0 they
  have read: each adds one to the stored counter and none sets \<open>lockUntil\<close>, so
  the account holds five counted failures and no lock, and the next login with the
  correct password, at 6 s, succeeds.
\<close>

theorem lockout_inactive_or_overlapping_counterexample:
  "\<not> isActive inactive_doc
   \<and> loginAttempts inactive_doc = 0 \<and> lockUntil inactive_doc = None
   \<and> \<not> verifyPassword inactive_doc ''guess1'' \<and> \<not> verifyPassword inactive_doc ''guess2''
   \<and> \<not> verifyPassword inactive_doc ''guess3'' \<and> \<not> verifyPassword inactive_doc ''guess4''
   \<and> \<not> verifyPassword inactive_doc ''guess5''
   \<and> login_run cfg0 (five_wrong ''gone@x.io'') [inactive_doc] = [inactive_doc]
   \<and> isActive dev_doc \<and> loginAttempts dev_doc = 0 \<and> lockUntil dev_doc = None
   \<and> \<not> verifyPassword dev_doc ''guess1'' \<and> \<not> verifyPassword dev_doc ''guess2''
   \<and> \<not> verifyPassword dev_doc ''guess3'' \<and> \<not> verifyPassword dev_doc ''guess4''
   \<and> \<not> verifyPassword dev_doc ''guess5''
   \<and> login_overlapping cfg0 (five_wrong ''dev@x.io'') [dev_doc] [dev_doc]
     = [dev_doc\<lparr>loginAttempts := 5\<rparr>]
   \<and> lockUntil (dev_doc\<lparr>loginAttempts := 5\<rparr>) = None
   \<and> login cfg0 6000 \<lparr>body_username = ''dev@x.io'', body_password = ''Dev!pass1''\<rparr>
       [dev_doc\<lparr>loginAttempts := 5\<rparr>]
     = (json_data 200 True ''Login successful''
          (Tokens (generateAccessToken cfg0 6000 ''d1'' ''developer'')
                  (generateRefreshToken cfg0 6000 ''d1'')),
        [dev_doc\<lparr>loginAttempts := 0, lastLogin := Some 6000\<rparr>])"
proof -
  have c: "trim (toLowerCase ''gone@x.io'') = ''gone@x.io''"
    "trim (toLowerCase ''dev@x.io'') = ''dev@x.io''"
    by (simp_all add: trim_def toLowerCase_def isWhitespace_def)
  show ?thesis
    by (simp add: c five_wrong_def login_def login_at_def login_query_def inactive_doc_def
        dev_doc_def isLocked_def verifyPassword_def bcrypt_hash_def incLoginAttempts_def
        resetLoginAttempts_def json_def)
qed

subsection \<open>User management on one's own account\<close>

text \<open>The two handlers that compare the target with the caller refuse and change nothing.\<close>

lemma deleteUser_self:
  "req_id a = i \<Longrightarrow>
   deleteUser a i users = (json 400 False ''Cannot delete your own account'', users)"
  by (simp add: deleteUser_def)

lemma deactivateUser_self:
  "req_id a = i \<Longrightarrow>
   deactivateUser a i users = (json 400 False ''Cannot deactivate your own account'', users)"
  by (simp add: deactivateUser_def)

text \<open>
  The guard of the two handlers compares the texts, the query that follows the ids
  they denote: the caller's own id written with capital digits is another text and the
  same id, so it passes the guard and the caller's own account is deleted, resp.
  deactivated.
\<close>

lemma deleteUser_own_id_in_capitals:
  "req_id admin2_ctx = user_id admin2_doc
   \<and> deleteUser admin2_ctx ''65A1B2C3D4E5F60718293A4B'' [admin2_doc, dev_doc]
       = (json 200 True ''User deleted successfully'', [dev_doc])
   \<and> deactivateUser admin2_ctx ''65A1B2C3D4E5F60718293A4B'' [admin2_doc, dev_doc]
       = (json 200 True ''User account deactivated successfully'',
          [admin2_doc\<lparr>isActive := False\<rparr>, dev_doc])"
  by (simp add: deleteUser_def deactivateUser_def castObjectId_def isHexDigit_def
      toLowerCase_def char_of_def bit_Suc_0_iff find_by_def admin2_ctx_def admin2_doc_def
      admin_doc_def)

text \<open>
  Claim C1 (no self-escalation), where the code departs from it. \<open>updateUser\<close> never
  compares the target with the caller: the example admin, authenticated by a valid
  token, sends \<open>PUT /users/a1\<close> for the own account and the request is answered 200;
  with \<open>role = developer\<close> the stored role of the admin becomes developer, with
  \<open>isActive = false\<close> the admin's own account is deactivated.
\<close>

theorem updateUser_self_accepted:
  "user_id admin_doc = ''a1'' \<and> role admin_doc = ''admin'' \<and> isActive admin_doc
   \<and> user_route cfg0 2000 (Some (Bearer (generateAccessToken cfg0 1000 ''a1'' ''admin'')))
        (\<lambda>requser. updateUser requser ''a1''
           \<lparr>upd_fullName = None, upd_email = None, upd_role = Some ''developer'',
            upd_isActive = None, upd_password = None\<rparr>)
        [admin_doc, dev_doc]
      = (json 200 True ''User updated successfully'',
         [admin_doc\<lparr>role := ''developer''\<rparr>, dev_doc])
   \<and> user_route cfg0 2000 (Some (Bearer (generateAccessToken cfg0 1000 ''a1'' ''admin'')))
        (\<lambda>requser. updateUser requser ''a1''
           \<lparr>upd_fullName = None, upd_email = None, upd_role = None,
            upd_isActive = Some False, upd_password = None\<rparr>)
        [admin_doc, dev_doc]
      = (json 200 True ''User updated successfully'',
         [admin_doc\<lparr>isActive := False\<rparr>, dev_doc])"
  by (simp add: user_route_def authenticate_def authorize_def generateAccessToken_def
      cfg0_def admin_doc_def dev_doc_def find_by_def passwordChangedAfter_def
      updateUser_def truthy_def build_updateData_def cast_update_def update_valid_def
      apply_update_def email_taken_def json_def Let_def)

subsection \<open>Tokens issued before a password change\<close>

text \<open>
  The access-token half: a verified token whose \<open>iat\<close> lies before the second of the
  last password change is refused by \<open>authenticate\<close> with the stale-password message.
\<close>

lemma authenticate_stale_access_token:
  assumes "verifyAccessToken cfg now t = Inr payload"
      and "find_by user_id (sub payload) users = Some u"
      and "isActive u"
      and "passwordChangedAt u = Some changed"
      and "iat payload < changed div 1000"
  shows "authenticate cfg now users (Some (Bearer t))
         = Inl (json 401 False ''Password recently changed. Please login again.'')"
  using assms by (simp add: authenticate_def passwordChangedAfter_def)

text \<open>\<open>refreshToken\<close> does not read \<open>passwordChangedAt\<close> at all.\<close>

lemma refreshToken_ignores_passwordChangedAt:
  "refreshToken cfg now t (update_by user_id i (\<lambda>d. d\<lparr>passwordChangedAt := c\<rparr>) users)
   = refreshToken cfg now t users"
proof -
  have "find_by user_id j (update_by user_id i (\<lambda>d. d\<lparr>passwordChangedAt := c\<rparr>) users)
        = (if j = i then map_option (\<lambda>d. d\<lparr>passwordChangedAt := c\<rparr>) (find_by user_id i users)
           else find_by user_id j users)" for j
    by (rule find_by_update_by) simp
  then show ?thesis
    by (auto simp: refreshToken_def split: option.splits sum.splits)
qed

text \<open>
  Claim C2 (stale-credential invalidation), where the code departs from it. The
  example developer holds an access and a refresh token issued at 10 s and changes
  the password at 20 s. At 30 s the access token is refused as the claim says, but
  the refresh token issued before the change is still answered with a new access
  token, and that new token authenticates.
\<close>

theorem refreshToken_after_password_change:
  "changePassword 20000 dev_ctx
     \<lparr>oldPassword = ''Dev!pass1'', newPassword = ''N3w!passw0rd'',
      confirmPassword = ''N3w!passw0rd''\<rparr> [dev_doc]
   = (json 200 True ''Password changed successfully'',
      [dev_doc\<lparr>password := bcrypt_hash ''N3w!passw0rd'', passwordChangedAt := Some 20000\<rparr>])
   \<and> verifyAccessToken cfg0 30000 (generateAccessToken cfg0 10000 ''d1'' ''developer'')
     = Inr \<lparr>sub = ''d1'', token_role = ''developer'', token_type = ''access'', iat = 10,
            expiry = 910, iss = ''pixelforge-nexus'', aud = ''pixelforge-nexus-client'',
            signed_with = ''access-secret''\<rparr>
   \<and> authenticate cfg0 30000
       [dev_doc\<lparr>password := bcrypt_hash ''N3w!passw0rd'', passwordChangedAt := Some 20000\<rparr>]
       (Some (Bearer (generateAccessToken cfg0 10000 ''d1'' ''developer'')))
     = Inl (json 401 False ''Password recently changed. Please login again.'')
   \<and> refreshToken cfg0 30000 (Some (generateRefreshToken cfg0 10000 ''d1''))
       [dev_doc\<lparr>password := bcrypt_hash ''N3w!passw0rd'', passwordChangedAt := Some 20000\<rparr>]
     = json_data 200 True ''Token refreshed successfully''
         (generateAccessToken cfg0 30000 ''d1'' ''developer'')
   \<and> authenticate cfg0 31000
       [dev_doc\<lparr>password := bcrypt_hash ''N3w!passw0rd'', passwordChangedAt := Some 20000\<rparr>]
       (Some (Bearer (generateAccessToken cfg0 30000 ''d1'' ''developer'')))
     = Inr dev_ctx"
  by (simp add: changePassword_def dev_ctx_def dev_doc_def find_by_def verifyPassword_def
      bcrypt_hash_def save_password_def generateAccessToken_def generateRefreshToken_def
      cfg0_def authenticate_def passwordChangedAfter_def refreshToken_def json_def
      json_data_def)

text \<open>
  The comparison is made in whole seconds: an access token issued at 20.1 s, before a
  password change at 20.9 s, is still accepted at 30 s.
\<close>

lemma authenticate_same_second_token:
  "authenticate cfg0 30000 [dev_doc\<lparr>passwordChangedAt := Some 20900\<rparr>]
     (Some (Bearer (generateAccessToken cfg0 20100 ''d1'' ''developer'')))
   = Inr dev_ctx"
  by (simp add: dev_ctx_def dev_doc_def find_by_def generateAccessToken_def cfg0_def
      authenticate_def passwordChangedAfter_def)

subsection \<open>Document classification on update\<close>

text \<open>
  Claim C9, where the code departs from it. The list \<open>updateDocument\<close> checks the
  requested classification against holds \<open>restricted\<close> where the schema holds
  \<open>secret\<close>. For the example document (classification \<open>internal\<close>) and the
  example admin: \<open>secret\<close>, a value of the schema's set, is refused with 400 and the
  document keeps its classification; \<open>restricted\<close>, outside the set, passes the
  handler's check and fails only in the schema validation of \<open>save\<close>, which the
  handler answers with 500; \<open>confidential\<close> is stored.
\<close>

theorem updateDocument_secret_refused:
  "classification document0 = ''internal''
   \<and> canUploadToProject admin_ctx project0
   \<and> updateDocument admin_ctx ''doc1''
        \<lparr>upd_classification = Some ''secret'', upd_accessibleBy = None\<rparr>
        [project0] [document0]
      = (json 400 False ''Invalid classification value'', [document0])
   \<and> updateDocument admin_ctx ''doc1''
        \<lparr>upd_classification = Some ''restricted'', upd_accessibleBy = None\<rparr>
        [project0] [document0]
      = (json 500 False ''Internal server error'', [document0])
   \<and> updateDocument admin_ctx ''doc1''
        \<lparr>upd_classification = Some ''confidential'', upd_accessibleBy = None\<rparr>
        [project0] [document0]
      = (json_data 200 True ''Document updated successfully''
           (document0\<lparr>classification := ''confidential''\<rparr>),
         [document0\<lparr>classification := ''confidential''\<rparr>])"
  by (simp add: updateDocument_def canUploadToProject_def admin_ctx_def project0_def
      document0_def find_by_def truthy_def document_valid_def allowedMimeTypes_def
      split_pop_def toLowerCase_def json_def json_data_def Let_def)

subsection \<open>The role used by the route-level gate\<close>

text \<open>\<open>authenticate\<close> copies the role from the token's payload.\<close>

lemma authenticate_role_from_token:
  assumes "authenticate cfg now users (Some (Bearer (Access_token c))) = Inr requser"
  shows "req_role requser = token_role c \<and> req_id requser = sub c"
  using assms
  by (auto simp: authenticate_def split: if_splits option.splits sum.splits)

text \<open>\<open>authenticate\<close> reads \<open>isActive\<close>, \<open>passwordChangedAt\<close> and \<open>email\<close> of the stored user, not \<open>role\<close>.\<close>

lemma authenticate_ignores_stored_role:
  "authenticate cfg now (update_by user_id i (\<lambda>d. d\<lparr>role := r\<rparr>) users) authHeader
   = authenticate cfg now users authHeader"
proof -
  have "find_by user_id j (update_by user_id i (\<lambda>d. d\<lparr>role := r\<rparr>) users)
        = (if j = i then map_option (\<lambda>d. d\<lparr>role := r\<rparr>) (find_by user_id i users)
           else find_by user_id j users)" for j
    by (rule find_by_update_by) simp
  then show ?thesis
    by (auto simp: authenticate_def passwordChangedAfter_def
             split: option.splits sum.splits authorization.splits)
qed

text \<open>
  Claim C10. Two runs that differ only in the stored role of a user (the second store
  is the first with that user's \<open>role\<close> overwritten) give the same result of
  \<open>authenticate\<close> and the same verdict of the role gate, for every request. When a
  token issued for role \<open>r0\<close> authenticates, the request context carries \<open>r0\<close>
  and the gate admits the request exactly when \<open>r0\<close> is among the allowed roles.
\<close>

theorem role_gate_uses_token_role:
  "authenticate cfg now (update_by user_id i (\<lambda>d. d\<lparr>role := r\<rparr>) users) authHeader
     = authenticate cfg now users authHeader
   \<and> role_gate cfg now (update_by user_id i (\<lambda>d. d\<lparr>role := r\<rparr>) users) allowedRoles authHeader
     = role_gate cfg now users allowedRoles authHeader
   \<and> (authenticate cfg now users (Some (Bearer (generateAccessToken cfg t0 uid r0)))
        = Inr requser
      \<longrightarrow> req_role requser = r0
          \<and> (role_gate cfg now users allowedRoles
                (Some (Bearer (generateAccessToken cfg t0 uid r0))) = None
              \<longleftrightarrow> r0 \<in> set allowedRoles))"
proof -
  have A: "authenticate cfg now (update_by user_id i (\<lambda>d. d\<lparr>role := r\<rparr>) users) authHeader
           = authenticate cfg now users authHeader"
    by (rule authenticate_ignores_stored_role)
  have B: "role_gate cfg now (update_by user_id i (\<lambda>d. d\<lparr>role := r\<rparr>) users)
             allowedRoles authHeader
           = role_gate cfg now users allowedRoles authHeader"
    unfolding role_gate_def A ..
  have C: "req_role requser = r0
           \<and> (role_gate cfg now users allowedRoles
                 (Some (Bearer (generateAccessToken cfg t0 uid r0))) = None
               \<longleftrightarrow> r0 \<in> set allowedRoles)"
    if h: "authenticate cfg now users (Some (Bearer (generateAccessToken cfg t0 uid r0)))
           = Inr requser"
  proof -
    obtain c where c: "generateAccessToken cfg t0 uid r0 = Access_token c" "token_role c = r0"
      by (simp add: generateAccessToken_def)
    from h c have rr: "req_role requser = r0"
      using authenticate_role_from_token [of cfg now users c requser] by simp
    have "role_gate cfg now users allowedRoles
            (Some (Bearer (generateAccessToken cfg t0 uid r0)))
          = authorize allowedRoles (Some requser)"
      by (simp add: role_gate_def h)
    with rr show ?thesis by (simp add: authorize_def)
  qed
  from A B C show ?thesis by blast
qed

text \<open>
  The example admin holds a token issued for role admin; after the stored role is
  overwritten with developer, the admin-only gate still admits the token.
\<close>

theorem role_gate_uses_token_role_witness:
  "authenticate cfg0 2000 [admin_doc, dev_doc]
     (Some (Bearer (generateAccessToken cfg0 1000 ''a1'' ''admin''))) = Inr admin_ctx
   \<and> update_by user_id ''a1'' (\<lambda>d. d\<lparr>role := ''developer''\<rparr>) [admin_doc, dev_doc]
     = [admin_doc\<lparr>role := ''developer''\<rparr>, dev_doc]
   \<and> req_role admin_ctx = ''admin''
   \<and> role_gate cfg0 2000 [admin_doc, dev_doc] [''admin'']
       (Some (Bearer (generateAccessToken cfg0 1000 ''a1'' ''admin''))) = None
   \<and> role_gate cfg0 2000 [admin_doc\<lparr>role := ''developer''\<rparr>, dev_doc] [''admin'']
       (Some (Bearer (generateAccessToken cfg0 1000 ''a1'' ''admin''))) = None"
proof -
  let ?h = "Some (Bearer (generateAccessToken cfg0 1000 ''a1'' ''admin''))"
  have a: "authenticate cfg0 2000 [admin_doc, dev_doc] ?h = Inr admin_ctx"
    by (simp add: authenticate_def generateAccessToken_def cfg0_def admin_doc_def
        admin_ctx_def find_by_def passwordChangedAfter_def)
  have u: "update_by user_id ''a1'' (\<lambda>d. d\<lparr>role := ''developer''\<rparr>) [admin_doc, dev_doc]
           = [admin_doc\<lparr>role := ''developer''\<rparr>, dev_doc]"
    by (simp add: admin_doc_def)
  note t = role_gate_uses_token_role
             [of cfg0 2000 "''a1''" "''developer''" "[admin_doc, dev_doc]" ?h "[''admin'']"
                 1000 "''a1''" "''admin''" admin_ctx]
  from t a have g: "role_gate cfg0 2000 [admin_doc, dev_doc] [''admin''] ?h = None"
    by simp
  from t u g have g': "role_gate cfg0 2000 [admin_doc\<lparr>role := ''developer''\<rparr>, dev_doc]
                         [''admin''] ?h = None"
    by simp
  from t a have "req_role admin_ctx = ''admin''" by simp
  with a u g g' show ?thesis by simp
qed

subsection \<open>Completion workflow: what the two handlers do to the stores\<close>

lemma find_by_update_by_same:
  "find_by key i xs = Some x \<Longrightarrow> key (f x) = i
   \<Longrightarrow> find_by key i (update_by key i f xs) = Some (f x)"
  by (induction xs) (auto simp: find_by_def split: if_splits)

lemma find_by_key: "find_by key i xs = Some x \<Longrightarrow> key x = i \<and> x \<in> set xs"
  by (auto simp: find_by_def find_Some_iff)

lemma getId_eq [simp]: "getId v = v"
  by (cases v) (simp_all add: getId_def)

lemma pendingRequest_None_iff:
  "pendingRequest projectId messages = None \<longleftrightarrow> outstanding projectId messages = []"
  by (auto simp: pendingRequest_def outstanding_def find_None_iff filter_empty_conv)

text \<open>Replacing one message by a message that is not outstanding never adds an outstanding one.\<close>

lemma outstanding_update_by_le:
  assumes "msg_type m' \<noteq> ''completion-request''"
  shows "length (outstanding q (update_by message_id i (\<lambda>d. m') messages))
         \<le> length (outstanding q messages)"
  using assms by (induction messages) (auto simp: outstanding_def)

lemma outstanding_update_by_distinct:
  assumes "distinct (map message_id messages)"
      and "msg_type m' \<noteq> ''completion-request''"
  shows "outstanding q (update_by message_id i (\<lambda>d. m') messages)
         = filter (\<lambda>m. message_id m \<noteq> i) (outstanding q messages)"
  using assms
proof (induction messages)
  case Nil
  then show ?case by (simp add: outstanding_def)
next
  case (Cons x xs)
  show ?case
  proof (cases "message_id x = i")
    case True
    with Cons.prems(1) have "i \<notin> message_id ` set xs" by simp
    then have "\<forall>m \<in> set xs. message_id m \<noteq> i" by blast
    then have "filter (\<lambda>m. message_id m \<noteq> i) (outstanding q xs) = outstanding q xs"
      unfolding outstanding_def filter_filter by (intro filter_cong) auto
    with True Cons.prems(2) show ?thesis by (simp add: outstanding_def)
  next
    case False
    with Cons show ?thesis by (simp add: outstanding_def)
  qed
qed

text \<open>
  \<open>sendMessage\<close> either leaves the collection as it is and answers with an error, or
  appends the one new message and answers 201; a new completion request is appended
  only for a developer and only when no request of the project is outstanding.
\<close>

lemma sendMessage_cases:
  assumes s: "sendMessage requser projectId body new_id projects messages = (r, messages')"
  shows "(messages' = messages \<and> http_status r \<in> {400, 403, 404})
         \<or> (((case body_type body of None \<Rightarrow> ''message'' | Some t \<Rightarrow> t) = ''completion-request''
               \<longrightarrow> outstanding projectId messages = [] \<and> req_role requser = ''developer'')
            \<and> ((messages' = messages \<and> http_status r = 500)
                \<or> (\<exists>m. messages' = messages @ [m]
                       \<and> r = json_data 201 True ''Message sent successfully'' m
                       \<and> msg_project m = projectId \<and> reviewedBy m = None
                       \<and> msg_type m
                           = (case body_type body of None \<Rightarrow> ''message'' | Some t \<Rightarrow> t))))"
proof (cases "body_content body")
  case None
  with s show ?thesis by (auto simp: sendMessage_def sendMessage_at_def Let_def json_def)
next
  case (Some c)
  note C = Some
  let ?ty = "case body_type body of None \<Rightarrow> ''message'' | Some t \<Rightarrow> t"
  show ?thesis
  proof (cases "c = [] \<or> length (trim c) = 0")
    case True
    with s C show ?thesis by (auto simp: sendMessage_def sendMessage_at_def Let_def json_def)
  next
    case nE: False
    show ?thesis
    proof (cases "find_by project_id projectId projects")
      case None
      with s C nE show ?thesis by (auto simp: sendMessage_def sendMessage_at_def Let_def json_def)
    next
      case (Some p)
      note P = Some
      show ?thesis
      proof (cases "hasProjectAccess requser p")
        case False
        with s C nE P show ?thesis by (auto simp: sendMessage_def sendMessage_at_def Let_def json_def)
      next
        case A: True
        show ?thesis
        proof (cases "?ty = ''completion-request'' \<and> req_role requser \<noteq> ''developer''")
          case True
          with s C nE P A show ?thesis by (auto simp: sendMessage_def sendMessage_at_def Let_def json_def)
        next
          case D: False
          show ?thesis
          proof (cases "?ty = ''completion-request''
                        \<and> pendingRequest projectId messages \<noteq> None")
            case True
            with s C nE P A D show ?thesis by (auto simp: sendMessage_def sendMessage_at_def Let_def json_def)
          next
            case N: False
            let ?m = "\<lparr>message_id = new_id, msg_project = projectId,
                       sender = req_id requser, content = trim c, msg_type = ?ty,
                       reviewedBy = None, reviewedAt = None, reviewResponse = None,
                       isRead = False\<rparr>"
            from D N have G: "?ty = ''completion-request''
                              \<longrightarrow> outstanding projectId messages = []
                                  \<and> req_role requser = ''developer''"
              by (auto simp: pendingRequest_None_iff)
            show ?thesis
            proof (cases "message_valid ?m")
              case False
              with s C nE P A D N have "messages' = messages \<and> http_status r = 500"
                by (auto simp: sendMessage_def sendMessage_at_def Let_def json_def)
              with G show ?thesis by blast
            next
              case True
              with s C nE P A D N
              have "messages' = messages @ [?m]
                    \<and> r = json_data 201 True ''Message sent successfully'' ?m"
                by (auto simp: sendMessage_def sendMessage_at_def Let_def)
              then have "\<exists>m. messages' = messages @ [m]
                       \<and> r = json_data 201 True ''Message sent successfully'' m
                       \<and> msg_project m = projectId \<and> reviewedBy m = None
                       \<and> msg_type m = ?ty"
                by (intro exI [of _ ?m]) simp
              with G show ?thesis by blast
            qed
          qed
        qed
      qed
    qed
  qed
qed

text \<open>
  Content that \<open>trim\<close> leaves empty is refused before anything else is looked at; a
  no-break space and a blank are such content.
\<close>

lemma sendMessage_blank_content:
  "body_content body = Some c \<Longrightarrow> trim c = [] \<Longrightarrow>
   sendMessage_at requser projectId body new_id projects seen messages
   = (json 400 False ''Message content is required'', messages)"
  by (simp add: sendMessage_at_def Let_def)

lemma sendMessage_no_break_space:
  "sendMessage dev_ctx ''p1''
     \<lparr>body_content = Some [CHR 0xA0, CHR '' ''], body_type = Some ''completion-request''\<rparr>
     ''m2'' [project0] []
   = (json 400 False ''Message content is required'', [])"
  by (simp add: sendMessage_def sendMessage_blank_content trim_def isWhitespace_def)

lemma sendMessage_request_refused:
  assumes "body_type body = Some ''completion-request''"
      and "outstanding projectId messages \<noteq> [] \<or> req_role requser \<noteq> ''developer''"
  shows "snd (sendMessage requser projectId body new_id projects messages) = messages
         \<and> http_status (fst (sendMessage requser projectId body new_id projects messages))
             \<in> {400, 403, 404}"
proof -
  obtain r messages' where
    s: "sendMessage requser projectId body new_id projects messages = (r, messages')"
    by (cases "sendMessage requser projectId body new_id projects messages")
  from sendMessage_cases [OF s] assms
  have "messages' = messages \<and> http_status r \<in> {400, 403, 404}"
    by auto
  with s show ?thesis by simp
qed

lemma sendMessage_request_accepted:
  assumes "body_content body = Some c" and "trim c \<noteq> []" and "length (trim c) \<le> 2000"
      and "body_type body = Some ''completion-request''"
      and "find_by project_id projectId projects = Some p"
      and "hasProjectAccess requser p"
      and "req_role requser = ''developer''"
      and "outstanding projectId messages = []"
  shows "sendMessage requser projectId body new_id projects messages
         = (json_data 201 True ''Message sent successfully''
              \<lparr>message_id = new_id, msg_project = projectId, sender = req_id requser,
               content = trim c, msg_type = ''completion-request'', reviewedBy = None,
               reviewedAt = None, reviewResponse = None, isRead = False\<rparr>,
            messages @
              [\<lparr>message_id = new_id, msg_project = projectId, sender = req_id requser,
                content = trim c, msg_type = ''completion-request'', reviewedBy = None,
                reviewedAt = None, reviewResponse = None, isRead = False\<rparr>])"
proof -
  from assms(2) have c: "c \<noteq> []" by (auto simp: trim_def)
  from assms(2) have l: "1 \<le> length (trim c)" by (cases "trim c") simp_all
  from assms(8) have pn: "pendingRequest projectId messages = None"
    by (simp add: pendingRequest_None_iff)
  show ?thesis
    using assms(1,3,4,5,6,7) c l pn assms(2)
    by (simp add: sendMessage_def sendMessage_at_def Let_def message_valid_def)
qed

text \<open>
  An update computed from the stored document itself is the replacement of that
  document by its updated copy.
\<close>

lemma update_by_const:
  "find_by key i xs = Some x \<Longrightarrow> update_by key i f xs = update_by key i (\<lambda>d. f x) xs"
  by (induction xs) (auto simp: find_by_def split: if_splits)

lemma update_by_review:
  "find_by message_id i xs = Some x \<Longrightarrow>
   update_by message_id i
     (\<lambda>d. d\<lparr>reviewedBy := a, reviewedAt := b, reviewResponse := c, msg_type := t\<rparr>) xs
   = update_by message_id i
       (\<lambda>d. x\<lparr>reviewedBy := a, reviewedAt := b, reviewResponse := c, msg_type := t\<rparr>) xs"
  by (rule update_by_const)

text \<open>
  A review that no other request overlaps reads and writes the same collection: it
  replaces the stored request by the reviewed copy.
\<close>

lemma reviewCompletionRequest_unfold:
  "reviewCompletionRequest now requser messageId body projects messages =
     (if req_role requser \<notin> set [''admin'', ''project-lead'']
      then (json 403 False ''Only admins and project leads can review completion requests'',
            messages, projects)
      else (case find_by message_id messageId messages of
        None \<Rightarrow> (json 404 False ''Message not found'', messages, projects)
      | Some m \<Rightarrow>
          if msg_type m \<noteq> ''completion-request''
          then (json 400 False ''This message is not a completion request'', messages, projects)
          else if reviewedBy m \<noteq> None
          then (json 400 False ''This completion request has already been reviewed'',
                messages, projects)
          else (case hasProjectAccess_nullable requser
                      (find_by project_id (msg_project m) projects) of
            None \<Rightarrow> (json 500 False ''Internal server error'', messages, projects)
          | Some False \<Rightarrow>
              (json 403 False ''You do not have access to this project'', messages, projects)
          | Some True \<Rightarrow>
              let m' = m\<lparr>reviewedBy := Some (req_id requser), reviewedAt := Some now,
                         reviewResponse :=
                           Some (if truthy (review_response body)
                                 then (case review_response body of Some r \<Rightarrow> r | None \<Rightarrow> [])
                                 else []),
                         msg_type := (if approved body then ''completion-approved''
                                      else ''completion-rejected'')\<rparr> in
              if \<not> message_valid m'
              then (json 500 False ''Internal server error'', messages, projects)
              else (json_data 200 True
                      (if approved body then ''Project marked as completed''
                       else ''Completion request rejected'') m',
                    update_by message_id messageId (\<lambda>d. m') messages,
                    if approved body
                    then update_by project_id (msg_project m)
                           (\<lambda>p. p\<lparr>status := ''completed'',
                                  lastModifiedBy := Some (req_id requser)\<rparr>) projects
                    else projects))))"
proof (cases "find_by message_id messageId messages")
  case None
  then show ?thesis
    by (simp add: reviewCompletionRequest_def reviewCompletionRequest_at_def)
next
  case (Some m)
  then show ?thesis
    by (simp add: reviewCompletionRequest_def reviewCompletionRequest_at_def Let_def
        update_by_review split: option.splits bool.splits)
qed

text \<open>
  The one way \<open>reviewCompletionRequest\<close> answers 200, and what it then stored; every
  other answer leaves both collections as they were.
\<close>

lemma review_success:
  assumes "reviewCompletionRequest now requser messageId body projects messages
           = (r, messages', projects')"
      and "http_status r = 200"
  shows "\<exists>m m'. find_by message_id messageId messages = Some m
           \<and> msg_type m = ''completion-request'' \<and> reviewedBy m = None
           \<and> req_role requser \<in> {''admin'', ''project-lead''}
           \<and> hasProjectAccess_nullable requser (find_by project_id (msg_project m) projects)
               = Some True
           \<and> m' = m\<lparr>reviewedBy := Some (req_id requser), reviewedAt := Some now,
                      reviewResponse :=
                        Some (if truthy (review_response body)
                              then (case review_response body of Some s \<Rightarrow> s | None \<Rightarrow> [])
                              else []),
                      msg_type := (if approved body then ''completion-approved''
                                   else ''completion-rejected'')\<rparr>
           \<and> messages' = update_by message_id messageId (\<lambda>d. m') messages
           \<and> projects' = (if approved body
                           then update_by project_id (msg_project m)
                                  (\<lambda>p. p\<lparr>status := ''completed'',
                                         lastModifiedBy := Some (req_id requser)\<rparr>) projects
                           else projects)
           \<and> data r = Some m'"
  using assms
  by (auto simp: reviewCompletionRequest_unfold Let_def json_def json_data_def
           split: option.splits if_splits bool.splits)

lemma review_failure:
  assumes "reviewCompletionRequest now requser messageId body projects messages
           = (r, messages', projects')"
      and "http_status r \<noteq> 200"
  shows "messages' = messages \<and> projects' = projects
         \<and> http_status r \<in> {400, 403, 404, 500}"
  using assms
  by (auto simp: reviewCompletionRequest_unfold Let_def json_def json_data_def
           split: option.splits if_splits bool.splits)

text \<open>A message that is no longer a completion request cannot be reviewed.\<close>

lemma review_not_a_request:
  assumes "find_by message_id messageId messages = Some m"
      and "msg_type m \<noteq> ''completion-request''"
  shows "\<exists>r. reviewCompletionRequest now requser messageId body projects messages
              = (r, messages, projects) \<and> http_status r \<in> {400, 403}"
  using assms
  by (auto simp: reviewCompletionRequest_unfold Let_def json_def)

subsection \<open>Review of a completion request\<close>

text \<open>
  When a review is accepted: the reviewer is an admin or a project lead, the message
  is a stored completion request that nobody has reviewed, its project is stored and
  the reviewer has access to it, and the response is at most 1000 characters long.
\<close>

lemma review_accepted:
  assumes "req_role requser \<in> {''admin'', ''project-lead''}"
      and "find_by message_id messageId messages = Some m"
      and "msg_type m = ''completion-request''" and "reviewedBy m = None"
      and "find_by project_id (msg_project m) projects = Some p"
      and "hasProjectAccess requser p"
      and "message_valid m"
      and "case review_response body of None \<Rightarrow> True | Some s \<Rightarrow> length s \<le> 1000"
  shows "reviewCompletionRequest now requser messageId body projects messages
         = (json_data 200 True
              (if approved body then ''Project marked as completed''
               else ''Completion request rejected'')
              (m\<lparr>reviewedBy := Some (req_id requser), reviewedAt := Some now,
                 reviewResponse :=
                   Some (case review_response body of None \<Rightarrow> [] | Some s \<Rightarrow> s),
                 msg_type := (if approved body then ''completion-approved''
                              else ''completion-rejected'')\<rparr>),
            update_by message_id messageId
              (\<lambda>d. m\<lparr>reviewedBy := Some (req_id requser), reviewedAt := Some now,
                       reviewResponse :=
                         Some (case review_response body of None \<Rightarrow> [] | Some s \<Rightarrow> s),
                       msg_type := (if approved body then ''completion-approved''
                                    else ''completion-rejected'')\<rparr>) messages,
            if approved body
            then update_by project_id (msg_project m)
                   (\<lambda>p. p\<lparr>status := ''completed'',
                          lastModifiedBy := Some (req_id requser)\<rparr>) projects
            else projects)"
proof -
  have r: "(if truthy (review_response body)
            then (case review_response body of Some s \<Rightarrow> s | None \<Rightarrow> []) else [])
           = (case review_response body of None \<Rightarrow> [] | Some s \<Rightarrow> s)"
    by (cases "review_response body") (simp_all add: truthy_def)
  from assms(7,8) have v: "message_valid
          (m\<lparr>reviewedBy := Some (req_id requser), reviewedAt := Some now,
             reviewResponse :=
               Some (case review_response body of None \<Rightarrow> [] | Some s \<Rightarrow> s),
             msg_type := (if approved body then ''completion-approved''
                          else ''completion-rejected'')\<rparr>)"
    by (cases "review_response body") (simp_all add: message_valid_def)
  from assms(1-6) v show ?thesis
    unfolding reviewCompletionRequest_unfold r Let_def
    by (simp add: hasProjectAccess_nullable_def)
qed

text \<open>
  What holds of every review that is answered 200: the reviewed message was a
  completion request with \<open>reviewedBy\<close> null; the reviewer is an admin, or a project
  lead who leads or created the message's project; the stored message now has
  \<open>reviewedBy\<close> set to the reviewer and its type is completion-approved or
  completion-rejected according to the verdict; any later review of that message, by
  anybody, is answered 400 or 403 and changes neither collection; a parent project
  that is stored is stored with status completed when the verdict is approval,
  otherwise the projects are untouched. If the answer is not 200, nothing is changed.
\<close>

lemma review_effects:
  assumes rv: "reviewCompletionRequest now requser messageId body projects messages
               = (r, messages', projects')"
  shows "(http_status r = 200 \<longrightarrow>
            (\<exists>m. find_by message_id messageId messages = Some m
               \<and> msg_type m = ''completion-request'' \<and> reviewedBy m = None
               \<and> (req_role requser = ''admin''
                  \<or> (req_role requser = ''project-lead''
                     \<and> (\<exists>p. find_by project_id (msg_project m) projects = Some p
                            \<and> (projectLead p = Some (req_id requser)
                               \<or> createdBy p = req_id requser))))
               \<and> (\<exists>m'. find_by message_id messageId messages' = Some m'
                      \<and> data r = Some m'
                      \<and> reviewedBy m' = Some (req_id requser)
                      \<and> msg_type m' = (if approved body then ''completion-approved''
                                       else ''completion-rejected''))
               \<and> (\<forall>p. find_by project_id (msg_project m) projects = Some p \<longrightarrow>
                      find_by project_id (msg_project m) projects'
                      = Some (if approved body
                              then p\<lparr>status := ''completed'',
                                     lastModifiedBy := Some (req_id requser)\<rparr>
                              else p))
               \<and> (\<not> approved body \<longrightarrow> projects' = projects))
            \<and> (\<forall>now2 requser2 body2. \<exists>r2.
                  reviewCompletionRequest now2 requser2 messageId body2 projects' messages'
                  = (r2, messages', projects')
                  \<and> http_status r2 \<in> {400, 403}))
         \<and> (http_status r \<noteq> 200 \<longrightarrow> messages' = messages \<and> projects' = projects)"
proof (cases "http_status r = 200")
  case False
  with review_failure [OF rv] show ?thesis by simp
next
  case True
  from review_success [OF rv True] obtain m m' where
    fm: "find_by message_id messageId messages = Some m"
    and ty: "msg_type m = ''completion-request''" and nr: "reviewedBy m = None"
    and ro: "req_role requser \<in> {''admin'', ''project-lead''}"
    and ac: "hasProjectAccess_nullable requser (find_by project_id (msg_project m) projects)
             = Some True"
    and m': "m' = m\<lparr>reviewedBy := Some (req_id requser), reviewedAt := Some now,
                     reviewResponse :=
                       Some (if truthy (review_response body)
                             then (case review_response body of Some s \<Rightarrow> s | None \<Rightarrow> [])
                             else []),
                     msg_type := (if approved body then ''completion-approved''
                                  else ''completion-rejected'')\<rparr>"
    and ms: "messages' = update_by message_id messageId (\<lambda>d. m') messages"
    and ps: "projects' = (if approved body
                          then update_by project_id (msg_project m)
                                 (\<lambda>p. p\<lparr>status := ''completed'',
                                        lastModifiedBy := Some (req_id requser)\<rparr>) projects
                          else projects)"
    and dr: "data r = Some m'"
    by blast
  have who: "req_role requser = ''admin''
             \<or> (req_role requser = ''project-lead''
                \<and> (\<exists>p. find_by project_id (msg_project m) projects = Some p
                       \<and> (projectLead p = Some (req_id requser)
                          \<or> createdBy p = req_id requser)))"
  proof (cases "req_role requser = ''admin''")
    case True
    then show ?thesis by simp
  next
    case False
    with ro have pl: "req_role requser = ''project-lead''" by simp
    with ac obtain p where p: "find_by project_id (msg_project m) projects = Some p"
      and "hasProjectAccess requser p"
      by (cases "find_by project_id (msg_project m) projects")
         (simp_all add: hasProjectAccess_nullable_def)
    with pl have "projectLead p = Some (req_id requser) \<or> createdBy p = req_id requser"
      by (simp add: hasProjectAccess_def split: if_splits)
    with pl p show ?thesis by simp
  qed
  from fm have "message_id m = messageId" by (simp add: find_by_key)
  with m' have k: "message_id m' = messageId" by simp
  have fm': "find_by message_id messageId messages' = Some m'"
    unfolding ms using fm k by (rule find_by_update_by_same)
  from m' have rb: "reviewedBy m' = Some (req_id requser)"
    and ty': "msg_type m' = (if approved body then ''completion-approved''
                             else ''completion-rejected'')"
    by simp_all
  from ty' have nt: "msg_type m' \<noteq> ''completion-request''" by simp
  have again: "\<exists>r2. reviewCompletionRequest now2 requser2 messageId body2 projects' messages'
                     = (r2, messages', projects') \<and> http_status r2 \<in> {400, 403}"
    for now2 requser2 body2
    using fm' nt by (rule review_not_a_request)
  have pr: "find_by project_id (msg_project m) projects'
            = Some (if approved body
                    then p\<lparr>status := ''completed'', lastModifiedBy := Some (req_id requser)\<rparr>
                    else p)"
    if "find_by project_id (msg_project m) projects = Some p" for p
  proof (cases "approved body")
    case False
    with ps that show ?thesis by simp
  next
    case True
    have "find_by project_id (msg_project m)
            (update_by project_id (msg_project m)
               (\<lambda>p. p\<lparr>status := ''completed'', lastModifiedBy := Some (req_id requser)\<rparr>)
               projects)
          = map_option (\<lambda>p. p\<lparr>status := ''completed'', lastModifiedBy := Some (req_id requser)\<rparr>)
              (find_by project_id (msg_project m) projects)"
      by (subst find_by_update_by) simp_all
    with True ps that show ?thesis by simp
  qed
  from ps have un: "\<not> approved body \<longrightarrow> projects' = projects" by simp
  have "\<exists>m'. find_by message_id messageId messages' = Some m'
            \<and> data r = Some m'
            \<and> reviewedBy m' = Some (req_id requser)
            \<and> msg_type m' = (if approved body then ''completion-approved''
                             else ''completion-rejected'')"
    using fm' dr rb ty' by blast
  with fm ty nr who pr un again True show ?thesis by blast
qed

text \<open>
  Claim C7, as amended: for reviews that are handled one after the other, none
  overlapping another. A review by an admin or a project lead of a stored completion
  request that nobody has reviewed, whose project is stored and accessible to the
  reviewer (an admin; a lead who leads or created it), with a response of at most
  1000 characters, is answered 200. Every review that is answered 200 is of that
  kind as to reviewer and message: the message was a completion request with
  \<open>reviewedBy\<close> null and the reviewer is an admin, or a project lead who leads or
  created the message's project; the stored message then has \<open>reviewedBy\<close> set to
  the reviewer and the type completion-approved or completion-rejected according to
  the verdict; any later review of that message, by anybody, is answered 400 or 403
  and changes neither collection; when the verdict is approval a parent project that
  is stored is stored with status completed, otherwise the projects are untouched.
  A review that is not answered 200 changes nothing.
\<close>

theorem review_completion_request:
  assumes rv: "reviewCompletionRequest now requser messageId body projects messages
               = (r, messages', projects')"
  shows "(req_role requser \<in> {''admin'', ''project-lead''}
          \<and> find_by message_id messageId messages = Some m0
          \<and> msg_type m0 = ''completion-request'' \<and> reviewedBy m0 = None
          \<and> find_by project_id (msg_project m0) projects = Some p0
          \<and> hasProjectAccess requser p0 \<and> message_valid m0
          \<and> (case review_response body of None \<Rightarrow> True | Some s \<Rightarrow> length s \<le> 1000)
          \<longrightarrow> http_status r = 200)
         \<and> (http_status r = 200 \<longrightarrow>
            (\<exists>m. find_by message_id messageId messages = Some m
               \<and> msg_type m = ''completion-request'' \<and> reviewedBy m = None
               \<and> (req_role requser = ''admin''
                  \<or> (req_role requser = ''project-lead''
                     \<and> (\<exists>p. find_by project_id (msg_project m) projects = Some p
                            \<and> (projectLead p = Some (req_id requser)
                               \<or> createdBy p = req_id requser))))
               \<and> (\<exists>m'. find_by message_id messageId messages' = Some m'
                      \<and> data r = Some m'
                      \<and> reviewedBy m' = Some (req_id requser)
                      \<and> msg_type m' = (if approved body then ''completion-approved''
                                       else ''completion-rejected''))
               \<and> (\<forall>p. find_by project_id (msg_project m) projects = Some p \<longrightarrow>
                      find_by project_id (msg_project m) projects'
                      = Some (if approved body
                              then p\<lparr>status := ''completed'',
                                     lastModifiedBy := Some (req_id requser)\<rparr>
                              else p))
               \<and> (\<not> approved body \<longrightarrow> projects' = projects))
            \<and> (\<forall>now2 requser2 body2. \<exists>r2.
                  reviewCompletionRequest now2 requser2 messageId body2 projects' messages'
                  = (r2, messages', projects')
                  \<and> http_status r2 \<in> {400, 403}))
         \<and> (http_status r \<noteq> 200 \<longrightarrow> messages' = messages \<and> projects' = projects)"
proof -
  have A: "http_status r = 200"
    if h: "req_role requser \<in> {''admin'', ''project-lead''}
           \<and> find_by message_id messageId messages = Some m0
           \<and> msg_type m0 = ''completion-request'' \<and> reviewedBy m0 = None
           \<and> find_by project_id (msg_project m0) projects = Some p0
           \<and> hasProjectAccess requser p0 \<and> message_valid m0
           \<and> (case review_response body of None \<Rightarrow> True | Some s \<Rightarrow> length s \<le> 1000)"
  proof -
    from h have "http_status
                   (fst (reviewCompletionRequest now requser messageId body projects messages))
                 = 200"
      by (subst review_accepted [of requser messageId messages m0 projects p0 body now])
         (simp_all add: json_data_def)
    with rv show ?thesis by simp
  qed
  from A review_effects [OF rv] show ?thesis by blast
qed

text \<open>
  The lead of the example project approves the example request at instant 5: the
  review is accepted, the request is stored as approved by the lead, the project is
  completed, and a second review by the admin is refused with 400. The same review
  by a developer is refused with 403 and changes nothing.
\<close>

theorem review_completion_request_witness:
  "req_role lead_ctx \<in> {''admin'', ''project-lead''}
   \<and> find_by message_id ''m1'' [request0] = Some request0
   \<and> msg_type request0 = ''completion-request'' \<and> reviewedBy request0 = None
   \<and> find_by project_id (msg_project request0) [project0] = Some project0
   \<and> hasProjectAccess lead_ctx project0 \<and> message_valid request0
   \<and> projectLead project0 = Some (req_id lead_ctx)
   \<and> reviewCompletionRequest 5 lead_ctx ''m1'' \<lparr>approved = True, review_response = None\<rparr>
       [project0] [request0]
     = (json_data 200 True ''Project marked as completed''
          (request0\<lparr>reviewedBy := Some ''l1'', reviewedAt := Some 5, reviewResponse := Some [],
                    msg_type := ''completion-approved''\<rparr>),
        [request0\<lparr>reviewedBy := Some ''l1'', reviewedAt := Some 5, reviewResponse := Some [],
                   msg_type := ''completion-approved''\<rparr>],
        [project0\<lparr>status := ''completed'', lastModifiedBy := Some ''l1''\<rparr>])
   \<and> (\<exists>r2. reviewCompletionRequest 9 admin_ctx ''m1''
              \<lparr>approved = False, review_response = None\<rparr>
              [project0\<lparr>status := ''completed'', lastModifiedBy := Some ''l1''\<rparr>]
              [request0\<lparr>reviewedBy := Some ''l1'', reviewedAt := Some 5,
                        reviewResponse := Some [], msg_type := ''completion-approved''\<rparr>]
            = (r2,
               [request0\<lparr>reviewedBy := Some ''l1'', reviewedAt := Some 5,
                         reviewResponse := Some [], msg_type := ''completion-approved''\<rparr>],
               [project0\<lparr>status := ''completed'', lastModifiedBy := Some ''l1''\<rparr>])
            \<and> http_status r2 \<in> {400, 403})
   \<and> reviewCompletionRequest 5 dev_ctx ''m1'' \<lparr>approved = True, review_response = None\<rparr>
       [project0] [request0]
     = (json 403 False ''Only admins and project leads can review completion requests'',
        [request0], [project0])"
proof -
  let ?b = "\<lparr>approved = True, review_response = None\<rparr>"
  let ?m' = "request0\<lparr>reviewedBy := Some ''l1'', reviewedAt := Some 5,
                      reviewResponse := Some [], msg_type := ''completion-approved''\<rparr>"
  let ?p' = "project0\<lparr>status := ''completed'', lastModifiedBy := Some ''l1''\<rparr>"
  have c: "req_role lead_ctx \<in> {''admin'', ''project-lead''}"
    "find_by message_id ''m1'' [request0] = Some request0"
    "msg_type request0 = ''completion-request''" "reviewedBy request0 = None"
    "find_by project_id (msg_project request0) [project0] = Some project0"
    "hasProjectAccess lead_ctx project0" "message_valid request0"
    "projectLead project0 = Some (req_id lead_ctx)"
    "case review_response ?b of None \<Rightarrow> True | Some s \<Rightarrow> length s \<le> 1000"
    by (simp_all add: lead_ctx_def request0_def project0_def find_by_def
        hasProjectAccess_def getId_def message_valid_def)
  obtain r3 ms3 ps3 where
    e3: "reviewCompletionRequest 5 dev_ctx ''m1'' ?b [project0] [request0] = (r3, ms3, ps3)"
    by (cases "reviewCompletionRequest 5 dev_ctx ''m1'' ?b [project0] [request0]") auto
  then have r3: "r3 = json 403 False
                        ''Only admins and project leads can review completion requests''"
    by (simp add: reviewCompletionRequest_unfold dev_ctx_def)
  then have "http_status r3 \<noteq> 200" by (simp add: json_def)
  with review_completion_request [OF e3] have "ms3 = [request0] \<and> ps3 = [project0]"
    by blast
  with e3 r3 have f: "reviewCompletionRequest 5 dev_ctx ''m1'' ?b [project0] [request0]
                      = (json 403 False
                           ''Only admins and project leads can review completion requests'',
                         [request0], [project0])"
    by simp
  have e: "reviewCompletionRequest 5 lead_ctx ''m1'' ?b [project0] [request0]
           = (json_data 200 True ''Project marked as completed'' ?m', [?m'], [?p'])"
    by (simp add: reviewCompletionRequest_unfold lead_ctx_def project0_def request0_def
        find_by_def hasProjectAccess_nullable_def hasProjectAccess_def getId_def
        truthy_def message_valid_def Let_def)
  note t = review_completion_request [OF e, of request0 project0]
  from t c
  have s: "http_status (json_data 200 True ''Project marked as completed'' ?m') = 200"
    by blast
  with t
  have "\<forall>now2 requser2 body2. \<exists>r2.
          reviewCompletionRequest now2 requser2 ''m1'' body2 [?p'] [?m'] = (r2, [?m'], [?p'])
          \<and> http_status r2 \<in> {400, 403}"
    by blast
  then have "\<exists>r2. reviewCompletionRequest 9 admin_ctx ''m1''
                    \<lparr>approved = False, review_response = None\<rparr> [?p'] [?m']
                  = (r2, [?m'], [?p'])
                  \<and> http_status r2 \<in> {400, 403}"
    by blast
  with c(1-8) e f show ?thesis by blast
qed

text \<open>
  The claim as stated fails in two ways. Two reviews of the example request that
  overlap (both have loaded the unreviewed request before either saves): the lead's
  approval at 5 and the admin's rejection at 6 are both answered 200, \<open>reviewedBy\<close>
  is set twice, the second save overwriting the first, and the project is left
  completed beside a request that is stored as rejected. And a parent project that
  is gone: the admin deletes the example project (\<open>deleteProject\<close> leaves its
  messages in place) and then approves the example request; the handler never tests
  whether it has found the project, the review is answered 200 with the message
  ``Project marked as completed'', the request is stored as approved, and no project
  is completed, there being none. The same review by the project's lead is answered
  500 (the access test dereferences the project that was not found), and the sibling
  handler \<open>sendMessage\<close> answers 404 ``Project not found'' for the same project.
\<close>

theorem review_overlapping_or_project_deleted_counterexample:
  "reviewCompletionRequest_at 5 lead_ctx ''m1'' \<lparr>approved = True, review_response = None\<rparr>
     [project0] [request0] [request0]
   = (json_data 200 True ''Project marked as completed''
        (request0\<lparr>reviewedBy := Some ''l1'', reviewedAt := Some 5, reviewResponse := Some [],
                  msg_type := ''completion-approved''\<rparr>),
      [request0\<lparr>reviewedBy := Some ''l1'', reviewedAt := Some 5, reviewResponse := Some [],
                 msg_type := ''completion-approved''\<rparr>],
      [project0\<lparr>status := ''completed'', lastModifiedBy := Some ''l1''\<rparr>])
   \<and> reviewCompletionRequest_at 6 admin_ctx ''m1''
       \<lparr>approved = False, review_response = None\<rparr>
       [project0\<lparr>status := ''completed'', lastModifiedBy := Some ''l1''\<rparr>]
       [request0]
       [request0\<lparr>reviewedBy := Some ''l1'', reviewedAt := Some 5, reviewResponse := Some [],
                 msg_type := ''completion-approved''\<rparr>]
     = (json_data 200 True ''Completion request rejected''
          (request0\<lparr>reviewedBy := Some ''a1'', reviewedAt := Some 6,
                    reviewResponse := Some [], msg_type := ''completion-rejected''\<rparr>),
        [request0\<lparr>reviewedBy := Some ''a1'', reviewedAt := Some 6, reviewResponse := Some [],
                   msg_type := ''completion-rejected''\<rparr>],
        [project0\<lparr>status := ''completed'', lastModifiedBy := Some ''l1''\<rparr>])
   \<and> deleteProject admin_ctx ''p1'' [project0]
     = (json 200 True ''Project deleted successfully'', [])
   \<and> msg_project request0 = ''p1''
   \<and> reviewCompletionRequest 5 admin_ctx ''m1'' \<lparr>approved = True, review_response = None\<rparr>
       [] [request0]
     = (json_data 200 True ''Project marked as completed''
          (request0\<lparr>reviewedBy := Some ''a1'', reviewedAt := Some 5,
                    reviewResponse := Some [], msg_type := ''completion-approved''\<rparr>),
        [request0\<lparr>reviewedBy := Some ''a1'', reviewedAt := Some 5, reviewResponse := Some [],
                   msg_type := ''completion-approved''\<rparr>],
        [])
   \<and> reviewCompletionRequest 5 lead_ctx ''m1'' \<lparr>approved = True, review_response = None\<rparr>
       [] [request0]
     = (json 500 False ''Internal server error'', [request0], [])
   \<and> sendMessage dev_ctx ''p1'' \<lparr>body_content = Some ''hello'', body_type = None\<rparr> ''m2''
       [] [request0]
     = (json 404 False ''Project not found'', [request0])"
  by (simp add: reviewCompletionRequest_at_def reviewCompletionRequest_def deleteProject_def
      sendMessage_def sendMessage_at_def admin_ctx_def lead_ctx_def dev_ctx_def project0_def
      request0_def find_by_def hasProjectAccess_nullable_def hasProjectAccess_def getId_def
      truthy_def message_valid_def trim_def isWhitespace_def json_def Let_def)

subsection \<open>At most one outstanding completion request\<close>

lemma outstanding_append:
  "outstanding q (messages @ [m])
   = outstanding q messages
     @ (if msg_project m = q \<and> msg_type m = ''completion-request'' \<and> reviewedBy m = None
        then [m] else [])"
  by (simp add: outstanding_def)

text \<open>Sending a message keeps the number of outstanding requests of every project at most one.\<close>

lemma sendMessage_keeps_single:
  assumes "length (outstanding q messages) \<le> 1"
  shows "length (outstanding q
                   (snd (sendMessage requser projectId body new_id projects messages))) \<le> 1"
proof -
  obtain r messages' where
    s: "sendMessage requser projectId body new_id projects messages = (r, messages')"
    by (cases "sendMessage requser projectId body new_id projects messages")
  let ?ty = "case body_type body of None \<Rightarrow> ''message'' | Some t \<Rightarrow> t"
  from sendMessage_cases [OF s]
  consider "messages' = messages"
    | m where "messages' = messages @ [m]" "msg_project m = projectId" "msg_type m = ?ty"
        "?ty = ''completion-request'' \<longrightarrow> outstanding projectId messages = []"
    by blast
  then have "length (outstanding q messages') \<le> 1"
  proof cases
    case 1
    with assms show ?thesis by simp
  next
    case (2 m)
    show ?thesis
    proof (cases "msg_project m = q \<and> msg_type m = ''completion-request''
                  \<and> reviewedBy m = None")
      case True
      with 2(3) have "?ty = ''completion-request''" by simp
      with 2(4) have "outstanding projectId messages = []" by blast
      moreover from True 2(2) have "projectId = q" by simp
      ultimately have "outstanding q messages = []" by simp
      with 2(1) show ?thesis by (simp add: outstanding_append)
    next
      case False
      then have "outstanding q (messages @ [m]) = outstanding q messages"
        by (simp only: outstanding_append if_False append_Nil2)
      with 2(1) assms show ?thesis by simp
    qed
  qed
  with s show ?thesis by simp
qed

text \<open>What a successful review stores, in the form the next proofs use.\<close>

lemma review_success_stores:
  assumes "reviewCompletionRequest now requser messageId body projects messages
           = (r, messages', projects')"
      and "http_status r = 200"
  obtains m :: msg and m' :: msg where
    "messages' = update_by message_id messageId (\<lambda>d. m') messages"
    "msg_type m' \<noteq> ''completion-request''"
    "projects' = (if approved body
                  then update_by project_id (msg_project m)
                         (\<lambda>p. p\<lparr>status := ''completed'',
                                lastModifiedBy := Some (req_id requser)\<rparr>) projects
                  else projects)"
proof -
  from review_success [OF assms] obtain m m' where
    m': "m' = m\<lparr>reviewedBy := Some (req_id requser), reviewedAt := Some now,
                     reviewResponse :=
                       Some (if truthy (review_response body)
                             then (case review_response body of Some s \<Rightarrow> s | None \<Rightarrow> [])
                             else []),
                     msg_type := (if approved body then ''completion-approved''
                                  else ''completion-rejected'')\<rparr>"
    and st: "messages' = update_by message_id messageId (\<lambda>d. m') messages"
      "projects' = (if approved body
                    then update_by project_id (msg_project m)
                           (\<lambda>p. p\<lparr>status := ''completed'',
                                  lastModifiedBy := Some (req_id requser)\<rparr>) projects
                    else projects)"
    by blast
  from m' have nt: "msg_type m' \<noteq> ''completion-request''" by simp
  from st(1) nt st(2) show thesis by (rule that)
qed

text \<open>A review never adds an outstanding request.\<close>

lemma review_keeps_outstanding:
  "length (outstanding q
             (fst (snd (reviewCompletionRequest now requser messageId body projects messages))))
   \<le> length (outstanding q messages)"
proof -
  obtain r messages' projects' where
    rv: "reviewCompletionRequest now requser messageId body projects messages
         = (r, messages', projects')"
    by (cases "reviewCompletionRequest now requser messageId body projects messages") auto
  have "length (outstanding q messages') \<le> length (outstanding q messages)"
  proof (cases "http_status r = 200")
    case False
    with review_failure [OF rv] show ?thesis by simp
  next
    case True
    obtain m' where
      "messages' = update_by message_id messageId (\<lambda>d. m') messages"
      "msg_type m' \<noteq> ''completion-request''"
      by (rule review_success_stores [OF rv True])
    then show ?thesis by (simp add: outstanding_update_by_le)
  qed
  with rv show ?thesis by simp
qed

lemma hasProjectAccess_status:
  "hasProjectAccess u (p\<lparr>status := s, lastModifiedBy := l\<rparr>) = hasProjectAccess u p"
  by (simp add: hasProjectAccess_def)

text \<open>
  Once the one outstanding request of a project has been reviewed, none is outstanding,
  and a developer with access to the project can file a new one.
\<close>

lemma request_after_review:
  assumes d: "distinct (map message_id messages)"
      and o: "outstanding projectId messages = [m0]"
      and rv: "reviewCompletionRequest now reviewer (message_id m0) rbody projects messages
               = (rr, messages', projects')"
      and ok: "http_status rr = 200"
      and b: "body_content body = Some c" "trim c \<noteq> []" "length (trim c) \<le> 2000"
             "body_type body = Some ''completion-request''"
      and p: "find_by project_id projectId projects = Some p"
      and a: "hasProjectAccess requser p" "req_role requser = ''developer''"
  shows "outstanding projectId messages' = []
         \<and> (\<exists>m. sendMessage requser projectId body new_id projects' messages'
                  = (json_data 201 True ''Message sent successfully'' m, messages' @ [m])
                \<and> outstanding projectId (messages' @ [m]) = [m])"
proof -
  obtain m :: msg and m' :: msg where
    ms: "messages' = update_by message_id (message_id m0) (\<lambda>d. m') messages"
    and nt: "msg_type m' \<noteq> ''completion-request''"
    and ps: "projects' = (if approved rbody
                          then update_by project_id (msg_project m)
                                 (\<lambda>p. p\<lparr>status := ''completed'',
                                        lastModifiedBy := Some (req_id reviewer)\<rparr>) projects
                          else projects)"
    by (rule review_success_stores [OF rv ok])
  have o': "outstanding projectId messages' = []"
    unfolding ms using outstanding_update_by_distinct [OF d nt] o by simp
  let ?f = "\<lambda>p. p\<lparr>status := ''completed'', lastModifiedBy := Some (req_id reviewer)\<rparr>"
  have "find_by project_id projectId (update_by project_id (msg_project m) ?f projects)
        = (if projectId = msg_project m
           then map_option ?f (find_by project_id (msg_project m) projects)
           else find_by project_id projectId projects)"
    by (rule find_by_update_by) simp
  with ps p obtain p' where
    p': "find_by project_id projectId projects' = Some p'" and "p' = p \<or> p' = ?f p"
    by (cases "approved rbody"; cases "projectId = msg_project m") auto
  then have a': "hasProjectAccess requser p'"
    using a(1) by (auto simp: hasProjectAccess_status)
  let ?m = "\<lparr>message_id = new_id, msg_project = projectId, sender = req_id requser,
             content = trim c, msg_type = ''completion-request'', reviewedBy = None,
             reviewedAt = None, reviewResponse = None, isRead = False\<rparr>"
  have "sendMessage requser projectId body new_id projects' messages'
        = (json_data 201 True ''Message sent successfully'' ?m, messages' @ [?m])"
    using b p' a' a(2) o' by (rule sendMessage_request_accepted)
  moreover have "outstanding projectId (messages' @ [?m]) = [?m]"
    using o' by (simp add: outstanding_append)
  ultimately show ?thesis using o' by blast
qed

text \<open>
  Claim C6, as amended: for requests that are handled one after the other, none
  overlapping another. For a request of type completion-request: while a request of
  the project is outstanding, or when the sender is not a developer, no message is
  created and the answer is an error (400, 403 or 404), the error being 400 ``already
  a pending completion request'' when the sender is a developer with access and the
  content is not blank; after the one outstanding request has been reviewed (approved
  or rejected) none is outstanding and a developer's new request is created (201) and
  is then the only outstanding one. Whatever is sent and whatever is reviewed, a
  project with at most one outstanding request keeps at most one.
\<close>

theorem single_outstanding_completion_request:
  assumes ty: "body_type body = Some ''completion-request''"
  shows "(outstanding projectId messages \<noteq> [] \<or> req_role requser \<noteq> ''developer'' \<longrightarrow>
            snd (sendMessage requser projectId body new_id projects messages) = messages
            \<and> http_status (fst (sendMessage requser projectId body new_id projects messages))
                \<in> {400, 403, 404})
         \<and> (outstanding projectId messages \<noteq> [] \<and> body_content body = Some c \<and> trim c \<noteq> []
             \<and> find_by project_id projectId projects = Some p \<and> hasProjectAccess requser p
             \<and> req_role requser = ''developer'' \<longrightarrow>
            sendMessage requser projectId body new_id projects messages
            = (json 400 False ''There is already a pending completion request for this project'',
               messages))
         \<and> (distinct (map message_id messages) \<and> outstanding projectId messages = [m0]
             \<and> reviewCompletionRequest now reviewer (message_id m0) rbody projects messages
                = (rr, messages', projects')
             \<and> http_status rr = 200
             \<and> body_content body = Some c \<and> trim c \<noteq> [] \<and> length (trim c) \<le> 2000
             \<and> find_by project_id projectId projects = Some p \<and> hasProjectAccess requser p
             \<and> req_role requser = ''developer'' \<longrightarrow>
            outstanding projectId messages' = []
            \<and> (\<exists>m. sendMessage requser projectId body new_id projects' messages'
                     = (json_data 201 True ''Message sent successfully'' m, messages' @ [m])
                   \<and> outstanding projectId (messages' @ [m]) = [m]))
         \<and> (length (outstanding q messages) \<le> 1 \<longrightarrow>
            length (outstanding q
                      (snd (sendMessage sender2 project2 body2 id2 projects messages))) \<le> 1
            \<and> length (outstanding q
                        (fst (snd (reviewCompletionRequest now2 reviewer2 message2 rbody2
                                     projects messages)))) \<le> 1)"
proof -
  have A: "snd (sendMessage requser projectId body new_id projects messages) = messages
           \<and> http_status (fst (sendMessage requser projectId body new_id projects messages))
               \<in> {400, 403, 404}"
    if "outstanding projectId messages \<noteq> [] \<or> req_role requser \<noteq> ''developer''"
    using ty that by (rule sendMessage_request_refused)
  have B: "sendMessage requser projectId body new_id projects messages
           = (json 400 False ''There is already a pending completion request for this project'',
              messages)"
    if h: "outstanding projectId messages \<noteq> [] \<and> body_content body = Some c \<and> trim c \<noteq> []
           \<and> find_by project_id projectId projects = Some p \<and> hasProjectAccess requser p
           \<and> req_role requser = ''developer''"
  proof -
    from h have "c \<noteq> []" by (auto simp: trim_def)
    moreover from h have "pendingRequest projectId messages \<noteq> None"
      by (simp add: pendingRequest_None_iff)
    ultimately show ?thesis
      using h ty by (simp add: sendMessage_def sendMessage_at_def Let_def)
  qed
  have C: "outstanding projectId messages' = []
           \<and> (\<exists>m. sendMessage requser projectId body new_id projects' messages'
                    = (json_data 201 True ''Message sent successfully'' m, messages' @ [m])
                  \<and> outstanding projectId (messages' @ [m]) = [m])"
    if h: "distinct (map message_id messages) \<and> outstanding projectId messages = [m0]
           \<and> reviewCompletionRequest now reviewer (message_id m0) rbody projects messages
              = (rr, messages', projects')
           \<and> http_status rr = 200
           \<and> body_content body = Some c \<and> trim c \<noteq> [] \<and> length (trim c) \<le> 2000
           \<and> find_by project_id projectId projects = Some p \<and> hasProjectAccess requser p
           \<and> req_role requser = ''developer''"
    using request_after_review [of messages projectId m0 now reviewer rbody projects rr
                                   messages' projects' body c p requser new_id] h ty
    by blast
  have D: "length (outstanding q
                     (snd (sendMessage sender2 project2 body2 id2 projects messages))) \<le> 1
           \<and> length (outstanding q
                       (fst (snd (reviewCompletionRequest now2 reviewer2 message2 rbody2
                                    projects messages)))) \<le> 1"
    if h: "length (outstanding q messages) \<le> 1"
  proof -
    have "length (outstanding q
                    (fst (snd (reviewCompletionRequest now2 reviewer2 message2 rbody2
                                 projects messages))))
          \<le> length (outstanding q messages)"
      by (rule review_keeps_outstanding)
    with h sendMessage_keeps_single [OF h] show ?thesis by simp
  qed
  from A B C D show ?thesis by blast
qed

text \<open>
  The example project with the example request outstanding: the developer's second
  request is refused with 400 and the lead's request with 403, nothing being stored;
  after the lead has approved the request, the developer's new request is stored.
\<close>

theorem single_outstanding_completion_request_witness:
  "outstanding ''p1'' [request0] = [request0]
   \<and> sendMessage dev_ctx ''p1''
        \<lparr>body_content = Some ''done again'', body_type = Some ''completion-request''\<rparr>
        ''m2'' [project0] [request0]
     = (json 400 False ''There is already a pending completion request for this project'',
        [request0])
   \<and> snd (sendMessage lead_ctx ''p1''
        \<lparr>body_content = Some ''done again'', body_type = Some ''completion-request''\<rparr>
        ''m2'' [project0] [request0]) = [request0]
   \<and> (\<exists>m. sendMessage dev_ctx ''p1''
             \<lparr>body_content = Some ''done again'', body_type = Some ''completion-request''\<rparr>
             ''m2''
             [project0\<lparr>status := ''completed'', lastModifiedBy := Some ''l1''\<rparr>]
             [request0\<lparr>reviewedBy := Some ''l1'', reviewedAt := Some 5,
                       reviewResponse := Some [], msg_type := ''completion-approved''\<rparr>]
           = (json_data 201 True ''Message sent successfully'' m,
              [request0\<lparr>reviewedBy := Some ''l1'', reviewedAt := Some 5,
                        reviewResponse := Some [], msg_type := ''completion-approved''\<rparr>, m]))
   \<and> length (outstanding ''p1'' [request0]) \<le> 1
   \<and> length (outstanding ''p1''
               (snd (sendMessage dev_ctx ''p1''
                       \<lparr>body_content = Some ''hello'', body_type = None\<rparr>
                       ''m3'' [project0] [request0]))) \<le> 1"
proof -
  let ?b = "\<lparr>body_content = Some ''done again'', body_type = Some ''completion-request''\<rparr>"
  let ?m' = "request0\<lparr>reviewedBy := Some ''l1'', reviewedAt := Some 5,
                      reviewResponse := Some [], msg_type := ''completion-approved''\<rparr>"
  let ?p' = "project0\<lparr>status := ''completed'', lastModifiedBy := Some ''l1''\<rparr>"
  have ty: "body_type ?b = Some ''completion-request''" by simp
  have o: "outstanding ''p1'' [request0] = [request0]"
    by (simp add: outstanding_def request0_def)
  have rv: "reviewCompletionRequest 5 lead_ctx (message_id request0)
              \<lparr>approved = True, review_response = None\<rparr> [project0] [request0]
            = (json_data 200 True ''Project marked as completed'' ?m', [?m'], [?p'])"
    by (simp add: reviewCompletionRequest_unfold lead_ctx_def project0_def request0_def
        find_by_def hasProjectAccess_nullable_def hasProjectAccess_def getId_def
        truthy_def message_valid_def Let_def)
  have h: "distinct (map message_id [request0])"
    "http_status (json_data 200 True ''Project marked as completed'' ?m') = 200"
    "body_content ?b = Some ''done again''" "trim ''done again'' \<noteq> []"
    "length (trim ''done again'') \<le> 2000"
    "find_by project_id ''p1'' [project0] = Some project0"
    "hasProjectAccess dev_ctx project0" "req_role dev_ctx = ''developer''"
    "req_role lead_ctx \<noteq> ''developer''"
    by (simp_all add: json_data_def trim_def isWhitespace_def find_by_def project0_def
        hasProjectAccess_def dev_ctx_def lead_ctx_def getId_def)
  note t = single_outstanding_completion_request [OF ty,
             of "''p1''" "[request0]" _ _ "[project0]" "''done again''" project0 request0
                5 lead_ctx "\<lparr>approved = True, review_response = None\<rparr>"
                "json_data 200 True ''Project marked as completed'' ?m'" "[?m']" "[?p']"]
  from t [of dev_ctx "''m2''"] o h
  have 1: "sendMessage dev_ctx ''p1'' ?b ''m2'' [project0] [request0]
           = (json 400 False ''There is already a pending completion request for this project'',
              [request0])"
    by simp
  from t [of lead_ctx "''m2''"] h
  have 2: "snd (sendMessage lead_ctx ''p1'' ?b ''m2'' [project0] [request0]) = [request0]"
    by simp
  from t [of dev_ctx "''m2''"] o rv h
  have 3: "\<exists>m. sendMessage dev_ctx ''p1'' ?b ''m2'' [?p'] [?m']
                = (json_data 201 True ''Message sent successfully'' m, [?m'] @ [m])"
    by blast
  from o have 4: "length (outstanding ''p1'' [request0]) \<le> 1" by simp
  from t [of dev_ctx "''m2''" "''p1''" dev_ctx "''p1''"
             "\<lparr>body_content = Some ''hello'', body_type = None\<rparr>" "''m3''"] 4
  have 5: "length (outstanding ''p1''
                     (snd (sendMessage dev_ctx ''p1''
                             \<lparr>body_content = Some ''hello'', body_type = None\<rparr>
                             ''m3'' [project0] [request0]))) \<le> 1"
    by blast
  from o 1 2 3 4 5 show ?thesis by simp
qed

text \<open>
  The claim as stated, with no condition on how requests interleave, fails. The
  handler looks for a pending request and inserts its message in two separate calls,
  and nothing in the collection refuses a second pending request. Two developers of
  the example project submit a completion request each, and both look-ups run before
  either insertion: both see no pending request, both are answered 201, and the
  project has two outstanding completion requests.
\<close>

theorem overlapping_requests_counterexample:
  "hasProjectAccess dev_ctx project0 \<and> hasProjectAccess dev2_ctx project0
   \<and> outstanding ''p1'' [] = []
   \<and> sendMessage_at dev_ctx ''p1''
        \<lparr>body_content = Some ''done'', body_type = Some ''completion-request''\<rparr>
        ''m1'' [project0] [] []
     = (json_data 201 True ''Message sent successfully'' request0, [request0])
   \<and> sendMessage_at dev2_ctx ''p1''
        \<lparr>body_content = Some ''done'', body_type = Some ''completion-request''\<rparr>
        ''m2'' [project0] [] [request0]
     = (json_data 201 True ''Message sent successfully''
          (request0\<lparr>message_id := ''m2'', sender := ''d2''\<rparr>),
        [request0, request0\<lparr>message_id := ''m2'', sender := ''d2''\<rparr>])
   \<and> outstanding ''p1'' [request0, request0\<lparr>message_id := ''m2'', sender := ''d2''\<rparr>]
     = [request0, request0\<lparr>message_id := ''m2'', sender := ''d2''\<rparr>]"
  by (simp add: sendMessage_at_def dev_ctx_def dev2_ctx_def project0_def request0_def
      find_by_def hasProjectAccess_def getId_def pendingRequest_def outstanding_def
      message_valid_def trim_def isWhitespace_def Let_def)

subsection \<open>The access list of an uploaded document\<close>

lemma build_accessibleBy_ids:
  "userId ` set (build_accessibleBy p) = set_option (projectLead p) \<union> set (assignedDevelopers p)"
  by (cases "projectLead p") (simp_all add: build_accessibleBy_def image_image)

lemma build_accessibleBy_roles:
  "e \<in> set (build_accessibleBy p) \<Longrightarrow> granted_role e \<in> {''project-lead'', ''developer''}"
  by (cases "projectLead p") (auto simp: build_accessibleBy_def)

lemma new_document_fields [simp]:
  "accessibleBy (new_document env requser projectId upl body p url pid) = build_accessibleBy p"
  "doc_project (new_document env requser projectId upl body p url pid) = projectId"
  "document_id (new_document env requser projectId upl body p url pid) = new_document_id env"
  by (simp_all add: new_document_def)

text \<open>
  When an upload is accepted: a file is attached, the project is stored, the uploader
  may upload to it, the file passes \<open>validateUploadFile\<close>, the cloud storage
  answers, and the new document passes the schema validation and the unique index of
  \<open>save\<close>. The document is then stored and returned with 201.
\<close>

lemma upload_accepted:
  assumes "req_file = Some upl"
      and "find_by project_id projectId projects = Some p"
      and "canUploadToProject requser p"
      and "validateUploadFile cfg upl (ext env) = None"
      and "cloudinaryResult env = Some (url, pid)"
      and "document_valid (new_document env requser projectId upl body p url pid)"
      and "\<not> filePath_taken (new_document env requser projectId upl body p url pid) documents"
  shows "uploadDocument cfg env requser projectId req_file body projects documents
         = (json_data 201 True ''Document uploaded successfully''
              (new_document env requser projectId upl body p url pid),
            documents @ [new_document env requser projectId upl body p url pid])"
  using assms by (simp add: uploadDocument_def Let_def)

text \<open>The one way \<open>uploadDocument\<close> answers 201; any other answer stores nothing.\<close>

lemma upload_success:
  assumes up: "uploadDocument cfg env requser projectId req_file body projects documents
               = (r, documents')"
      and ok: "http_status r = 201"
  obtains upl :: upload_file and p :: project and url pid where
    "req_file = Some upl"
    "find_by project_id projectId projects = Some p"
    "canUploadToProject requser p"
    "validateUploadFile cfg upl (ext env) = None"
    "cloudinaryResult env = Some (url, pid)"
    "document_valid (new_document env requser projectId upl body p url pid)"
    "\<not> filePath_taken (new_document env requser projectId upl body p url pid) documents"
    "r = json_data 201 True ''Document uploaded successfully''
           (new_document env requser projectId upl body p url pid)"
    "documents' = documents @ [new_document env requser projectId upl body p url pid]"
proof (cases req_file)
  case None
  with up ok show thesis by (auto simp: uploadDocument_def json_def)
next
  case (Some upl)
  note F = Some
  show thesis
  proof (cases "find_by project_id projectId projects")
    case None
    with up ok F show thesis by (auto simp: uploadDocument_def json_def)
  next
    case (Some p)
    note P = Some
    show thesis
    proof (cases "canUploadToProject requser p")
      case False
      with up ok F P show thesis by (auto simp: uploadDocument_def json_def)
    next
      case U: True
      show thesis
      proof (cases "validateUploadFile cfg upl (ext env)")
        case (Some err)
        with up ok F P U show thesis by (auto simp: uploadDocument_def json_def)
      next
        case V: None
        show thesis
        proof (cases "cloudinaryResult env")
          case None
          with up ok F P U V show thesis by (auto simp: uploadDocument_def json_def)
        next
          case (Some res)
          obtain url pid where res: "res = (url, pid)"
            by (cases res)
          let ?d = "new_document env requser projectId upl body p url pid"
          show thesis
          proof (cases "\<not> document_valid ?d \<or> filePath_taken ?d documents")
            case True
            with up ok F P U V Some res show thesis
              by (auto simp: uploadDocument_def json_def Let_def)
          next
            case False
            with up F P U V Some res
            have "r = json_data 201 True ''Document uploaded successfully'' ?d"
              and "documents' = documents @ [?d]"
              by (simp_all add: uploadDocument_def Let_def)
            with F P U V Some res False show thesis
              by (intro that [of upl p url pid]) simp_all
          qed
        qed
      qed
    qed
  qed
qed

lemma upload_refused:
  assumes up: "uploadDocument cfg env requser projectId req_file body projects documents
               = (r, documents')"
      and no: "http_status r \<noteq> 201"
  shows "documents' = documents \<and> http_status r \<in> {400, 403, 404, 500}"
  using assms
  by (auto simp: uploadDocument_def Let_def json_def json_data_def
           split: option.splits if_splits prod.splits)

text \<open>Who is neither admin nor on the list is refused, by the decision and by both handlers.\<close>

lemma not_listed_denied:
  assumes "req_role u \<noteq> ''admin''" and "req_id u \<notin> userId ` set (accessibleBy d)"
  shows "\<not> canAccessDocument u d"
  using assms by (force simp: canAccessDocument_def list_ex_iff)

lemma not_listed_refused:
  assumes "\<not> canAccessDocument u d" and "find_by document_id i documents = Some d"
  shows "viewDocument now u i documents
           = (json 403 False ''You do not have access to this document'', documents)
         \<and> downloadDocument now u i documents
           = (json 403 False ''You do not have access to this document'', documents)"
  using assms by (simp add: viewDocument_def downloadDocument_def)

text \<open>
  Claim C8, as amended. An upload is accepted, answered 201 and stored, exactly when a
  file is attached, the project \<open>p\<close> is stored, the uploader may upload to it (an
  admin, or a project lead who leads or created it), the file passes
  \<open>validateUploadFile\<close>, the cloud storage answers and the new document passes the
  validation of \<open>save\<close>; any other upload stores nothing. The \<open>accessibleBy\<close> list
  of the stored document holds the project's lead (if it has one) and every assigned
  developer, and nobody else: each entry is labelled project-lead or developer, none
  is made for the admin role or for the uploader, so an admin is on the list exactly
  when that admin is the project's lead or among its assigned developers. For every
  document and every subject whose role is not admin and whose id is not on the
  document's list, \<open>canAccessDocument\<close> is false and both \<open>viewDocument\<close> and
  \<open>downloadDocument\<close> answer 403 and record nothing.
\<close>

theorem document_access_list:
  "(req_file = Some upl \<and> find_by project_id projectId projects = Some p
    \<and> canUploadToProject requser p \<and> validateUploadFile cfg upl (ext env) = None
    \<and> cloudinaryResult env = Some (url, pid)
    \<and> document_valid (new_document env requser projectId upl body p url pid)
    \<and> \<not> filePath_taken (new_document env requser projectId upl body p url pid) documents
    \<longrightarrow>
      (\<exists>d. uploadDocument cfg env requser projectId req_file body projects documents
              = (json_data 201 True ''Document uploaded successfully'' d, documents @ [d])
         \<and> doc_project d = projectId
         \<and> (\<forall>l. projectLead p = Some l \<longrightarrow> l \<in> userId ` set (accessibleBy d))
         \<and> set (assignedDevelopers p) \<subseteq> userId ` set (accessibleBy d)
         \<and> userId ` set (accessibleBy d)
             = set_option (projectLead p) \<union> set (assignedDevelopers p)
         \<and> (\<forall>e \<in> set (accessibleBy d).
               granted_role e \<in> {''project-lead'', ''developer''})))
   \<and> (uploadDocument cfg env requser projectId req_file body projects documents
        = (r, documents') \<longrightarrow>
        (http_status r = 201 \<longrightarrow>
           (\<exists>upl' p' url' pid'.
              req_file = Some upl' \<and> find_by project_id projectId projects = Some p'
              \<and> canUploadToProject requser p'
              \<and> validateUploadFile cfg upl' (ext env) = None
              \<and> cloudinaryResult env = Some (url', pid')
              \<and> document_valid (new_document env requser projectId upl' body p' url' pid')
              \<and> \<not> filePath_taken (new_document env requser projectId upl' body p' url' pid')
                    documents
              \<and> r = json_data 201 True ''Document uploaded successfully''
                      (new_document env requser projectId upl' body p' url' pid')
              \<and> documents'
                  = documents @ [new_document env requser projectId upl' body p' url' pid']))
        \<and> (http_status r \<noteq> 201 \<longrightarrow> documents' = documents))
   \<and> (req_role u \<noteq> ''admin'' \<and> req_id u \<notin> userId ` set (accessibleBy d') \<longrightarrow>
        \<not> canAccessDocument u d'
        \<and> (find_by document_id i stored = Some d' \<longrightarrow>
             viewDocument now u i stored
               = (json 403 False ''You do not have access to this document'', stored)
             \<and> downloadDocument now u i stored
               = (json 403 False ''You do not have access to this document'', stored)))"
proof -
  let ?d = "new_document env requser projectId upl body p url pid"
  have A: "\<exists>d. uploadDocument cfg env requser projectId req_file body projects documents
                 = (json_data 201 True ''Document uploaded successfully'' d, documents @ [d])
             \<and> doc_project d = projectId
             \<and> (\<forall>l. projectLead p = Some l \<longrightarrow> l \<in> userId ` set (accessibleBy d))
             \<and> set (assignedDevelopers p) \<subseteq> userId ` set (accessibleBy d)
             \<and> userId ` set (accessibleBy d)
                 = set_option (projectLead p) \<union> set (assignedDevelopers p)
             \<and> (\<forall>e \<in> set (accessibleBy d).
                   granted_role e \<in> {''project-lead'', ''developer''})"
    if h: "req_file = Some upl \<and> find_by project_id projectId projects = Some p
           \<and> canUploadToProject requser p \<and> validateUploadFile cfg upl (ext env) = None
           \<and> cloudinaryResult env = Some (url, pid)
           \<and> document_valid ?d \<and> \<not> filePath_taken ?d documents"
  proof -
    from h have e: "uploadDocument cfg env requser projectId req_file body projects documents
                    = (json_data 201 True ''Document uploaded successfully'' ?d,
                       documents @ [?d])"
      by (intro upload_accepted) simp_all
    have ids: "userId ` set (accessibleBy ?d)
               = set_option (projectLead p) \<union> set (assignedDevelopers p)"
      by (simp add: build_accessibleBy_ids)
    have roles: "\<forall>e \<in> set (accessibleBy ?d).
                   granted_role e \<in> {''project-lead'', ''developer''}"
      using build_accessibleBy_roles [of _ p] by simp
    from ids have "\<forall>l. projectLead p = Some l \<longrightarrow> l \<in> userId ` set (accessibleBy ?d)"
      and "set (assignedDevelopers p) \<subseteq> userId ` set (accessibleBy ?d)"
      by auto
    moreover have "doc_project ?d = projectId" by simp
    ultimately show ?thesis using e ids roles by blast
  qed
  have B: "\<exists>upl' p' url' pid'.
              req_file = Some upl' \<and> find_by project_id projectId projects = Some p'
              \<and> canUploadToProject requser p'
              \<and> validateUploadFile cfg upl' (ext env) = None
              \<and> cloudinaryResult env = Some (url', pid')
              \<and> document_valid (new_document env requser projectId upl' body p' url' pid')
              \<and> \<not> filePath_taken (new_document env requser projectId upl' body p' url' pid')
                    documents
              \<and> r = json_data 201 True ''Document uploaded successfully''
                      (new_document env requser projectId upl' body p' url' pid')
              \<and> documents'
                  = documents @ [new_document env requser projectId upl' body p' url' pid']"
    if up: "uploadDocument cfg env requser projectId req_file body projects documents
            = (r, documents')"
      and ok: "http_status r = 201"
    using upload_success [OF up ok] by metis
  have C: "documents' = documents"
    if "uploadDocument cfg env requser projectId req_file body projects documents
        = (r, documents')"
      and "http_status r \<noteq> 201"
    using upload_refused [OF that] by simp
  have D: "\<not> canAccessDocument u d'
           \<and> (find_by document_id i stored = Some d' \<longrightarrow>
                viewDocument now u i stored
                  = (json 403 False ''You do not have access to this document'', stored)
                \<and> downloadDocument now u i stored
                  = (json 403 False ''You do not have access to this document'', stored))"
    if "req_role u \<noteq> ''admin'' \<and> req_id u \<notin> userId ` set (accessibleBy d')"
  proof -
    from that have n: "\<not> canAccessDocument u d'" by (simp add: not_listed_denied)
    with not_listed_refused [OF n, of i stored now] show ?thesis by blast
  qed
  from A B C D show ?thesis by blast
qed

text \<open>
  The lead \<open>l1\<close> of the example project (developers \<open>d1\<close>, \<open>d2\<close>) uploads a file:
  the upload is accepted, the stored access list is \<open>l1\<close>, \<open>d1\<close>, \<open>d2\<close>; the
  developer \<open>d3\<close> is refused the document.
\<close>

theorem document_access_list_witness:
  "find_by project_id ''p1'' [project0] = Some project0
   \<and> canUploadToProject lead_ctx project0
   \<and> validateUploadFile cfg0 file0 (ext env0) = None
   \<and> cloudinaryResult env0 = Some (''https://cdn/plan'', ''plan_id'')
   \<and> new_document env0 lead_ctx ''p1'' file0 \<lparr>body_classification = None\<rparr> project0
        ''https://cdn/plan'' ''plan_id'' = document0
   \<and> document_valid document0 \<and> \<not> filePath_taken document0 []
   \<and> uploadDocument cfg0 env0 lead_ctx ''p1'' (Some file0) \<lparr>body_classification = None\<rparr>
     [project0] []
   = (json_data 201 True ''Document uploaded successfully'' document0, [document0])
   \<and> projectLead project0 = Some ''l1'' \<and> assignedDevelopers project0 = [''d1'', ''d2'']
   \<and> userId ` set (accessibleBy document0) = {''l1'', ''d1'', ''d2''}
   \<and> req_role outsider_ctx \<noteq> ''admin''
   \<and> req_id outsider_ctx \<notin> userId ` set (accessibleBy document0)
   \<and> \<not> canAccessDocument outsider_ctx document0
   \<and> viewDocument 9 outsider_ctx ''doc1'' [document0]
     = (json 403 False ''You do not have access to this document'', [document0])
   \<and> downloadDocument 9 outsider_ctx ''doc1'' [document0]
     = (json 403 False ''You do not have access to this document'', [document0])"
proof -
  let ?b = "\<lparr>body_classification = None\<rparr>"
  have nd: "new_document env0 lead_ctx ''p1'' file0 ?b project0 ''https://cdn/plan'' ''plan_id''
            = document0"
    by (simp add: new_document_def env0_def lead_ctx_def file0_def project0_def
        document0_def build_accessibleBy_def truthy_def)
  have c: "find_by project_id ''p1'' [project0] = Some project0"
    "canUploadToProject lead_ctx project0"
    "validateUploadFile cfg0 file0 (ext env0) = None"
    "cloudinaryResult env0 = Some (''https://cdn/plan'', ''plan_id'')"
    by (simp_all add: find_by_def project0_def canUploadToProject_def lead_ctx_def getId_def
        validateUploadFile_def cfg0_def file0_def env0_def allowedMimeTypes_def)
  have v: "document_valid document0" "\<not> filePath_taken document0 []"
    by (simp_all add: document_valid_def document0_def split_pop_def toLowerCase_def
        allowedMimeTypes_def filePath_taken_def)
  have pr: "projectLead project0 = Some ''l1''" "assignedDevelopers project0 = [''d1'', ''d2'']"
    by (simp_all add: project0_def)
  have h: "req_role outsider_ctx \<noteq> ''admin''"
    "req_id outsider_ctx \<notin> userId ` set (accessibleBy document0)"
    "find_by document_id ''doc1'' [document0] = Some document0"
    by (simp_all add: outsider_ctx_def document0_def find_by_def)
  note t = document_access_list
             [of "Some file0" file0 "''p1''" "[project0]" project0 lead_ctx cfg0 env0
                 "''https://cdn/plan''" "''plan_id''" ?b "[]"
                 "json_data 201 True ''Document uploaded successfully'' document0"
                 "[document0]" outsider_ctx document0 "''doc1''" "[document0]" 9,
               unfolded nd]
  from c v
  have H: "Some file0 = Some file0 \<and> find_by project_id ''p1'' [project0] = Some project0
           \<and> canUploadToProject lead_ctx project0
           \<and> validateUploadFile cfg0 file0 (ext env0) = None
           \<and> cloudinaryResult env0 = Some (''https://cdn/plan'', ''plan_id'')
           \<and> document_valid document0 \<and> \<not> filePath_taken document0 []"
    by simp
  from mp [OF conjunct1 [OF t] H] obtain d where
    up: "uploadDocument cfg0 env0 lead_ctx ''p1'' (Some file0) ?b [project0] []
         = (json_data 201 True ''Document uploaded successfully'' d, [] @ [d])"
    and ids: "userId ` set (accessibleBy d)
              = set_option (projectLead project0) \<union> set (assignedDevelopers project0)"
    by blast
  from up upload_accepted [where body = ?b and documents = "[]", OF refl c(1) c(2) c(3) c(4)]
    v nd
  have dd: "d = document0" by (simp add: json_data_def)
  from ids dd pr have ids': "userId ` set (accessibleBy document0) = {''l1'', ''d1'', ''d2''}"
    by auto
  from t h
  have den: "\<not> canAccessDocument outsider_ctx document0
             \<and> viewDocument 9 outsider_ctx ''doc1'' [document0]
               = (json 403 False ''You do not have access to this document'', [document0])
             \<and> downloadDocument 9 outsider_ctx ''doc1'' [document0]
               = (json 403 False ''You do not have access to this document'', [document0])"
    by blast
  from up dd have up': "uploadDocument cfg0 env0 lead_ctx ''p1'' (Some file0) ?b [project0] []
                        = (json_data 201 True ''Document uploaded successfully'' document0,
                           [document0])"
    by simp
  from c nd v up' pr ids' h(1,2) den show ?thesis by blast
qed

text \<open>
  The claim as stated fails in its parenthesis: an admin can be stored in the list.
  The example admin \<open>a1\<close> has created a project without naming a lead and is
  therefore its lead; the admin uploads a file to it, the upload is accepted, and the
  stored access list holds \<open>a1\<close>, labelled project-lead, beside the two developers.
\<close>

theorem admin_lead_stored_counterexample:
  "role admin_doc = ''admin'' \<and> user_id admin_doc = ''a1'' \<and> req_role admin_ctx = ''admin''
   \<and> req_id admin_ctx = ''a1''
   \<and> createdBy project_by_admin = ''a1'' \<and> projectLead project_by_admin = Some ''a1''
   \<and> uploadDocument cfg0 env0 admin_ctx ''p2'' (Some file0) \<lparr>body_classification = None\<rparr>
        [project0, project_by_admin] []
     = (json_data 201 True ''Document uploaded successfully''
          (document0\<lparr>doc_project := ''p2'', uploadedBy := ''a1'',
                      accessibleBy := [\<lparr>userId = ''a1'', granted_role = ''project-lead''\<rparr>,
                                       \<lparr>userId = ''d1'', granted_role = ''developer''\<rparr>,
                                       \<lparr>userId = ''d2'', granted_role = ''developer''\<rparr>]\<rparr>),
        [document0\<lparr>doc_project := ''p2'', uploadedBy := ''a1'',
                    accessibleBy := [\<lparr>userId = ''a1'', granted_role = ''project-lead''\<rparr>,
                                     \<lparr>userId = ''d1'', granted_role = ''developer''\<rparr>,
                                     \<lparr>userId = ''d2'', granted_role = ''developer''\<rparr>]\<rparr>])"
  by (simp add: uploadDocument_def new_document_def cfg0_def env0_def admin_ctx_def
      admin_doc_def file0_def project0_def project_by_admin_def document0_def find_by_def
      canUploadToProject_def getId_def validateUploadFile_def allowedMimeTypes_def
      build_accessibleBy_def truthy_def document_valid_def split_pop_def toLowerCase_def
      filePath_taken_def Let_def)

end
